theory Spec2Isabelle
  imports Main "HOL-Library.Char_ord" "HOL-Library.List_Lexorder"
begin

section \<open>Strings\<close>

text \<open>
  \<^verbatim>\<open>QString\<close> values are modelled as \<^typ>\<open>string\<close> restricted to ASCII:
  \<^verbatim>\<open>trimmed()\<close> strips the ASCII white space characters at both ends and
  \<^verbatim>\<open>toLower()\<close> maps \<^verbatim>\<open>A..Z\<close> to \<^verbatim>\<open>a..z\<close>. A null and an empty \<^verbatim>\<open>QString\<close> are
  the same value \<open>''''\<close>.
\<close>

definition isSpace :: "char \<Rightarrow> bool" where
  "isSpace c = (c \<in> {CHR '' '', CHR 0x09, CHR 0x0A, CHR 0x0B, CHR 0x0C, CHR 0x0D})"

definition trimmed :: "string \<Rightarrow> string" where
  "trimmed s = rev (dropWhile isSpace (rev (dropWhile isSpace s)))"

definition lowerChar :: "char \<Rightarrow> char" where
  "lowerChar c =
     (case map_of (zip ''ABCDEFGHIJKLMNOPQRSTUVWXYZ'' ''abcdefghijklmnopqrstuvwxyz'') c of
        Some d \<Rightarrow> d
      | None \<Rightarrow> c)"

definition toLower :: "string \<Rightarrow> string" where
  "toLower s = map lowerChar s"

text \<open>The tag normalisation \<^verbatim>\<open>tag.trimmed().toLower()\<close> used by every tag operation.\<close>

definition normalizeTag :: "string \<Rightarrow> string" where
  "normalizeTag tag = toLower (trimmed tag)"

text \<open>
  SQLite's \<^verbatim>\<open>LIKE\<close> without \<^verbatim>\<open>ESCAPE\<close>: \<^verbatim>\<open>%\<close> matches any sequence, \<^verbatim>\<open>_\<close> any single
  character, every other character matches itself up to ASCII case. First argument: the
  pattern.
\<close>

fun sqlLike :: "string \<Rightarrow> string \<Rightarrow> bool" where
  "sqlLike [] [] = True"
| "sqlLike [] (c # cs) = False"
| "sqlLike (p # ps) [] = (p = CHR ''%'' \<and> sqlLike ps [])"
| "sqlLike (p # ps) (c # cs) =
     (if p = CHR ''%'' then sqlLike ps (c # cs) \<or> sqlLike (p # ps) cs
      else if p = CHR ''_'' then sqlLike ps cs
      else lowerChar p = lowerChar c \<and> sqlLike ps cs)"

section \<open>MediaRecord.h\<close>

datatype MediaType = Image | Video | Audio | Unknown

text \<open>The struct \<^verbatim>\<open>MediaRecord\<close>; \<^verbatim>\<open>std::optional\<close> members are options.\<close>

record MediaRecord =
  rid :: int
  filePath :: string
  rootDir :: string
  fileName :: string
  sha256 :: string
  pHash :: string
  width :: "int option"
  height :: "int option"
  sizeBytes :: "int option"
  capturedTimeUtc :: "int option"
  modifiedTimeUtc :: "int option"
  mediaType :: MediaType
  thumbnailPath :: string
  status :: string
  error :: string

text \<open>A default-constructed \<^verbatim>\<open>MediaRecord\<close> (the member initialisers of the struct).\<close>

definition newMediaRecord :: MediaRecord where
  "newMediaRecord =
     \<lparr> rid = 0, filePath = '''', rootDir = '''', fileName = '''', sha256 = '''', pHash = '''',
       width = None, height = None, sizeBytes = None, capturedTimeUtc = None,
       modifiedTimeUtc = None, mediaType = Unknown, thumbnailPath = '''',
       status = ''active'', error = '''' \<rparr>"

definition IMAGE_EXTENSIONS :: "string list" where
  "IMAGE_EXTENSIONS =
     [''.jpg'', ''.jpeg'', ''.png'', ''.webp'', ''.bmp'', ''.tif'', ''.tiff'', ''.gif'']"

definition VIDEO_EXTENSIONS :: "string list" where
  "VIDEO_EXTENSIONS =
     [''.mp4'', ''.mov'', ''.avi'', ''.mkv'', ''.webm'', ''.m4v'', ''.wmv'', ''.3gp'']"

definition AUDIO_EXTENSIONS :: "string list" where
  "AUDIO_EXTENSIONS = [''.m4a'', ''.mp3'', ''.wav'', ''.flac'', ''.ogg'', ''.aac'']"

definition typeFromExtension :: "string \<Rightarrow> MediaType" where
  "typeFromExtension ext =
     (let lower = toLower ext in
      if lower \<in> set IMAGE_EXTENSIONS then Image
      else if lower \<in> set VIDEO_EXTENSIONS then Video
      else if lower \<in> set AUDIO_EXTENSIONS then Audio
      else Unknown)"

definition mediaTypeToString :: "MediaType \<Rightarrow> string" where
  "mediaTypeToString ty =
     (case ty of Image \<Rightarrow> ''image'' | Video \<Rightarrow> ''video'' | Audio \<Rightarrow> ''audio''
      | Unknown \<Rightarrow> ''unknown'')"

definition stringToMediaType :: "string \<Rightarrow> MediaType" where
  "stringToMediaType str =
     (let lower = toLower str in
      if lower = ''image'' then Image
      else if lower = ''video'' then Video
      else if lower = ''audio'' then Audio
      else Unknown)"

section \<open>Database.cpp: the store\<close>

text \<open>
  One row of table \<^verbatim>\<open>media\<close>; a nullable column is an option, \<open>None\<close> being SQL
  \<^verbatim>\<open>NULL\<close>.
\<close>

record media_row =
  m_id :: int
  file_path :: string
  root_dir :: string
  file_name :: string
  sha256_col :: "string option"
  p_hash :: "string option"
  width_col :: "int option"
  height_col :: "int option"
  size_bytes :: "int option"
  captured_time_utc :: "int option"
  modified_time_utc :: "int option"
  media_type :: string
  thumbnail_path :: "string option"
  status_col :: string
  error_col :: "string option"

text \<open>
  Rows of \<^verbatim>\<open>tags\<close> are pairs \<open>(id, name)\<close>, rows of \<^verbatim>\<open>media_tags\<close> pairs
  \<open>(media_id, tag_id)\<close>. Tables are lists in insertion order.

  \<open>foreign_keys\<close> is the connection's \<^verbatim>\<open>PRAGMA foreign_keys\<close> setting. SQLite enforces
  the \<^verbatim>\<open>FOREIGN KEY ... ON DELETE CASCADE\<close> clauses of \<^verbatim>\<open>media_tags\<close> only while it
  is on, and it is off on every new connection until a pragma turns it on.
\<close>

type_synonym tag_row = "int \<times> string"
type_synonym media_tag_row = "int \<times> int"

record database =
  media :: "media_row list"
  tags :: "tag_row list"
  media_tags :: "media_tag_row list"
  foreign_keys :: bool

text \<open>
  \<^verbatim>\<open>Database::getConnection\<close> followed by \<^verbatim>\<open>Database::initializeSchema\<close> on a new
  store file: the three tables are created empty. The only pragmas issued are
  \<^verbatim>\<open>journal_mode=WAL\<close> and \<^verbatim>\<open>synchronous=NORMAL\<close>, so \<open>foreign_keys\<close> keeps the
  value \<open>fk\<close> the SQLite library opens connections with (\<open>False\<close> unless the library
  was built with another default).
\<close>

definition initializeSchema :: "bool \<Rightarrow> database" where
  "initializeSchema fk = \<lparr> media = [], tags = [], media_tags = [], foreign_keys = fk \<rparr>"

text \<open>The rowid SQLite gives a new row of an \<^verbatim>\<open>INTEGER PRIMARY KEY\<close> table.\<close>

definition nextRowid :: "int list \<Rightarrow> int" where
  "nextRowid ids = (case ids of [] \<Rightarrow> 1 | x # xs \<Rightarrow> fold max xs x + 1)"

text \<open>The binding \<^verbatim>\<open>s.isEmpty() ? QVariant() : s\<close>.\<close>

definition nullIfEmpty :: "string \<Rightarrow> string option" where
  "nullIfEmpty s = (if s = [] then None else Some s)"

text \<open>\<^verbatim>\<open>query.value(col).toString()\<close>: \<^verbatim>\<open>NULL\<close> reads as the empty string.\<close>

definition toString :: "string option \<Rightarrow> string" where
  "toString v = (case v of None \<Rightarrow> [] | Some s \<Rightarrow> s)"

text \<open>\<^verbatim>\<open>query.value(col).toLongLong()\<close>: \<^verbatim>\<open>NULL\<close> reads as 0.\<close>

definition toLongLong :: "int option \<Rightarrow> int" where
  "toLongLong v = (case v of None \<Rightarrow> 0 | Some n \<Rightarrow> n)"

text \<open>
  \<^verbatim>\<open>Database::upsertMedia\<close>: \<^verbatim>\<open>INSERT ... ON CONFLICT(file_path) DO UPDATE\<close>, then the
  \<^verbatim>\<open>SELECT id\<close>. Returns the store and the id.
\<close>

definition upsertRow :: "MediaRecord \<Rightarrow> media_row \<Rightarrow> media_row" where
  "upsertRow r row =
     row\<lparr> sha256_col := nullIfEmpty (sha256 r),
          p_hash := nullIfEmpty (pHash r),
          width_col := width r,
          height_col := height r,
          size_bytes := sizeBytes r,
          captured_time_utc := capturedTimeUtc r,
          modified_time_utc := modifiedTimeUtc r,
          media_type := mediaTypeToString (mediaType r),
          thumbnail_path := nullIfEmpty (thumbnailPath r),
          status_col := ''active'',
          error_col := nullIfEmpty (error r) \<rparr>"

definition insertRow :: "int \<Rightarrow> MediaRecord \<Rightarrow> media_row" where
  "insertRow i r =
     \<lparr> m_id = i, file_path = filePath r, root_dir = rootDir r, file_name = fileName r,
       sha256_col = nullIfEmpty (sha256 r),
       p_hash = nullIfEmpty (pHash r),
       width_col = width r,
       height_col = height r,
       size_bytes = sizeBytes r,
       captured_time_utc = capturedTimeUtc r,
       modified_time_utc = modifiedTimeUtc r,
       media_type = mediaTypeToString (mediaType r),
       thumbnail_path = nullIfEmpty (thumbnailPath r),
       status_col = ''active'',
       error_col = nullIfEmpty (error r) \<rparr>"

definition upsertMedia :: "database \<Rightarrow> MediaRecord \<Rightarrow> database \<times> int" where
  "upsertMedia db r =
     (let db' =
        (if filePath r \<in> set (map file_path (media db))
         then db\<lparr> media :=
                    map (\<lambda>row. if file_path row = filePath r then upsertRow r row else row)
                      (media db) \<rparr>
         else db\<lparr> media := media db @ [insertRow (nextRowid (map m_id (media db))) r] \<rparr>)
      in (db', case filter (\<lambda>row. file_path row = filePath r) (media db') of
                 [] \<Rightarrow> 0
               | row # _ \<Rightarrow> m_id row))"

text \<open>
  \<^verbatim>\<open>Database::deleteMedia\<close>: \<^verbatim>\<open>DELETE FROM media WHERE file_path = ?\<close>. The rows of
  \<^verbatim>\<open>media_tags\<close> that reference a deleted row follow it only under foreign-key
  enforcement.
\<close>

definition deleteMedia :: "database \<Rightarrow> string \<Rightarrow> database \<times> bool" where
  "deleteMedia db path =
     (let gone = map m_id (filter (\<lambda>row. file_path row = path) (media db));
          db1 = db\<lparr> media := filter (\<lambda>row. file_path row \<noteq> path) (media db) \<rparr>;
          db2 = (if foreign_keys db
                 then db1\<lparr> media_tags := filter (\<lambda>mt. fst mt \<notin> set gone) (media_tags db) \<rparr>
                 else db1)
      in (db2, gone \<noteq> []))"

text \<open>\<^verbatim>\<open>Database::updateThumbnailPath\<close>.\<close>

definition updateThumbnailPath :: "database \<Rightarrow> string \<Rightarrow> string \<Rightarrow> database" where
  "updateThumbnailPath db path thumb =
     db\<lparr> media :=
          map (\<lambda>row. if file_path row = path then row\<lparr> thumbnail_path := nullIfEmpty thumb \<rparr>
                     else row)
            (media db) \<rparr>"

text \<open>
  The most parameters SQLite lets one statement bind (\<^verbatim>\<open>SQLITE_MAX_VARIABLE_NUMBER\<close>):
  32766 in the library's builds since 3.32.0, 999 in the builds before.
\<close>

definition SQLITE_MAX_VARIABLE_NUMBER :: int where
  "SQLITE_MAX_VARIABLE_NUMBER = 32766"

text \<open>
  \<^verbatim>\<open>Database::markMissingFilesDeleted\<close>. \<open>absolutePath\<close> stands for
  \<^verbatim>\<open>QDir(rootDir).absolutePath()\<close>, which depends on the process's working directory.
  An element of \<open>existingPaths\<close> is \<open>None\<close> for a null \<^verbatim>\<open>QString\<close>, which Qt binds
  as SQL \<^verbatim>\<open>NULL\<close>: \<^verbatim>\<open>file_path NOT IN (...)\<close> is then true of no row. The statement
  binds the root and one parameter per path; \<open>maxVariables\<close> is the limit of the SQLite
  library in use. With more parameters than that \<^verbatim>\<open>prepare\<close> fails, \<^verbatim>\<open>exec()\<close> returns
  \<^verbatim>\<open>false\<close> and the function returns 0 with the store untouched. Otherwise it returns
  the store and \<^verbatim>\<open>numRowsAffected()\<close>.
\<close>

definition markMissingFilesDeleted ::
  "(string \<Rightarrow> string) \<Rightarrow> int \<Rightarrow> database \<Rightarrow> string option list \<Rightarrow> string \<Rightarrow>
   database \<times> int" where
  "markMissingFilesDeleted absolutePath maxVariables db existingPaths root =
     (let absRootDir = absolutePath root;
          hit = (if existingPaths = []
                 then (\<lambda>row. root_dir row = absRootDir \<and> status_col row = ''active'')
                 else (\<lambda>row. root_dir row = absRootDir \<and> status_col row = ''active'' \<and>
                             Some (file_path row) \<notin> set existingPaths \<and>
                             None \<notin> set existingPaths))
      in if maxVariables < 1 + int (length existingPaths) then (db, 0)
         else (db\<lparr> media := map (\<lambda>row. if hit row then row\<lparr> status_col := ''deleted'' \<rparr>
                                        else row)
                               (media db) \<rparr>,
               int (length (filter hit (media db)))))"

text \<open>
  \<^verbatim>\<open>Database::upsertTags\<close>: per name, \<^verbatim>\<open>INSERT ... ON CONFLICT(name) DO NOTHING\<close> and
  the \<^verbatim>\<open>SELECT id\<close> whose first row is appended to the result.
\<close>

definition insertTag :: "database \<Rightarrow> string \<Rightarrow> database" where
  "insertTag db n =
     (if n \<in> set (map snd (tags db)) then db
      else db\<lparr> tags := tags db @ [(nextRowid (map fst (tags db)), n)] \<rparr>)"

definition tagIdsNamed :: "database \<Rightarrow> string list \<Rightarrow> int list" where
  "tagIdsNamed db names = map fst (filter (\<lambda>t. snd t \<in> set names) (tags db))"

fun upsertTags :: "database \<Rightarrow> string list \<Rightarrow> database \<times> int list" where
  "upsertTags db [] = (db, [])"
| "upsertTags db (n # ns) =
     (let normalized = normalizeTag n in
      if normalized = [] then upsertTags db ns
      else
        (let db1 = insertTag db normalized;
             found = take 1 (tagIdsNamed db1 [normalized]);
             (db2, rest) = upsertTags db1 ns
         in (db2, found @ rest)))"

text \<open>
  \<^verbatim>\<open>INSERT OR IGNORE INTO media_tags(media_id, tag_id)\<close>: a duplicate of the primary key
  is ignored; under foreign-key enforcement a row whose parent is missing is rejected (the
  statement fails and \<^verbatim>\<open>exec()\<close>'s result is not looked at).
\<close>

definition insertMediaTag :: "int \<Rightarrow> int \<Rightarrow> database \<Rightarrow> database" where
  "insertMediaTag mediaId tagId db =
     (if (mediaId, tagId) \<in> set (media_tags db) then db
      else if foreign_keys db \<and>
              (mediaId \<notin> set (map m_id (media db)) \<or> tagId \<notin> set (map fst (tags db)))
      then db
      else db\<lparr> media_tags := media_tags db @ [(mediaId, tagId)] \<rparr>)"

text \<open>\<^verbatim>\<open>Database::setMediaTags\<close>.\<close>

definition setMediaTags :: "database \<Rightarrow> int \<Rightarrow> string list \<Rightarrow> database" where
  "setMediaTags db mediaId tagNames =
     (let (db1, tagIds) = upsertTags db tagNames;
          db2 = db1\<lparr> media_tags := filter (\<lambda>mt. fst mt \<noteq> mediaId) (media_tags db1) \<rparr>
      in fold (insertMediaTag mediaId) tagIds db2)"

text \<open>\<^verbatim>\<open>Database::addMediaTags\<close>.\<close>

definition addMediaTags :: "database \<Rightarrow> int \<Rightarrow> string list \<Rightarrow> database" where
  "addMediaTags db mediaId tagNames =
     (let (db1, tagIds) = upsertTags db tagNames
      in fold (insertMediaTag mediaId) tagIds db1)"

text \<open>
  \<^verbatim>\<open>Database::removeMediaTags\<close>: the names are normalised, the ids of the tags so named
  are selected, and per id \<^verbatim>\<open>DELETE FROM media_tags WHERE media_id = ? AND tag_id = ?\<close>
  runs. No statement touches table \<^verbatim>\<open>tags\<close>.
\<close>

definition deleteMediaTag :: "int \<Rightarrow> int \<Rightarrow> database \<Rightarrow> database" where
  "deleteMediaTag mediaId tagId db =
     db\<lparr> media_tags := filter (\<lambda>mt. \<not> (fst mt = mediaId \<and> snd mt = tagId)) (media_tags db) \<rparr>"

definition removeMediaTags :: "database \<Rightarrow> int \<Rightarrow> string list \<Rightarrow> database" where
  "removeMediaTags db mediaId tagNames =
     (if tagNames = [] then db
      else
        (let normalized = filter (\<lambda>n. n \<noteq> []) (map normalizeTag tagNames) in
         if normalized = [] then db
         else fold (deleteMediaTag mediaId) (tagIdsNamed db normalized) db))"

text \<open>
  \<^verbatim>\<open>Database::removeTagGlobally\<close>: deletes the tag's associations, then the tag row
  \<^verbatim>\<open>if no references remain\<close>. Returns the store and the number of associations deleted.
\<close>

definition removeTagGlobally :: "database \<Rightarrow> string \<Rightarrow> database \<times> int" where
  "removeTagGlobally db tagName =
     (let normalized = normalizeTag tagName in
      if normalized = [] then (db, 0)
      else
        (case tagIdsNamed db [normalized] of
           [] \<Rightarrow> (db, 0)
         | tagId # _ \<Rightarrow>
             (let affected = int (length (filter (\<lambda>mt. snd mt = tagId) (media_tags db)));
                  db1 = db\<lparr> media_tags := filter (\<lambda>mt. snd mt \<noteq> tagId) (media_tags db) \<rparr>;
                  db2 = (if tagId \<in> set (map snd (media_tags db1)) then db1
                         else db1\<lparr> tags := filter (\<lambda>t. fst t \<noteq> tagId) (tags db1) \<rparr>)
              in (db2, affected))))"

text \<open>\<^verbatim>\<open>Database::getMediaTags\<close>: the join of \<^verbatim>\<open>tags\<close> and \<^verbatim>\<open>media_tags\<close>, by name.\<close>

definition getMediaTags :: "database \<Rightarrow> int \<Rightarrow> string list" where
  "getMediaTags db mediaId =
     sort (concat (map (\<lambda>t. map (\<lambda>mt. snd t)
                              (filter (\<lambda>mt. snd mt = fst t \<and> fst mt = mediaId) (media_tags db)))
                       (tags db)))"


text \<open>
  \<^verbatim>\<open>Database::queryMedia\<close>. The \<^verbatim>\<open>ORDER BY\<close> text is spliced into the statement, so
  the model takes the row comparison it denotes as the parameter \<open>orderBy\<close> and sorts
  by insertion; \<open>defaultOrder\<close> is the header's default
  \<^verbatim>\<open>modified_time_utc DESC, id DESC\<close> (SQLite sorts \<^verbatim>\<open>NULL\<close> below every value).
\<close>

fun insertRowBy ::
  "(media_row \<Rightarrow> media_row \<Rightarrow> bool) \<Rightarrow> media_row \<Rightarrow> media_row list \<Rightarrow> media_row list" where
  "insertRowBy le x [] = [x]"
| "insertRowBy le x (y # ys) = (if le x y then x # y # ys else y # insertRowBy le x ys)"

definition orderRows ::
  "(media_row \<Rightarrow> media_row \<Rightarrow> bool) \<Rightarrow> media_row list \<Rightarrow> media_row list" where
  "orderRows le xs = foldr (insertRowBy le) xs []"

definition nullLess :: "int option \<Rightarrow> int option \<Rightarrow> bool" where
  "nullLess a b =
     (case b of None \<Rightarrow> False
      | Some y \<Rightarrow> (case a of None \<Rightarrow> True | Some x \<Rightarrow> x < y))"

definition defaultOrder :: "media_row \<Rightarrow> media_row \<Rightarrow> bool" where
  "defaultOrder a b =
     (nullLess (modified_time_utc b) (modified_time_utc a) \<or>
      (modified_time_utc a = modified_time_utc b \<and> m_id b \<le> m_id a))"

text \<open>\<^verbatim>\<open>LIMIT ? OFFSET ?\<close>: a negative limit is no limit, a negative offset is 0.\<close>

definition limitOffset :: "int \<Rightarrow> int \<Rightarrow> 'a list \<Rightarrow> 'a list" where
  "limitOffset lim off xs =
     (let ys = drop (nat off) xs in if lim < 0 then ys else take (nat lim) ys)"

text \<open>The loop body that fills a \<^verbatim>\<open>MediaRecord\<close> from a result row.\<close>

definition rowToRecord :: "media_row \<Rightarrow> MediaRecord" where
  "rowToRecord row =
     \<lparr> rid = m_id row, filePath = file_path row, rootDir = root_dir row,
       fileName = file_name row, sha256 = toString (sha256_col row),
       pHash = toString (p_hash row), width = width_col row, height = height_col row,
       sizeBytes = size_bytes row, capturedTimeUtc = captured_time_utc row,
       modifiedTimeUtc = modified_time_utc row,
       mediaType = stringToMediaType (media_type row),
       thumbnailPath = toString (thumbnail_path row), status = status_col row,
       error = toString (error_col row) \<rparr>"

text \<open>
  The tag sub-select of \<^verbatim>\<open>queryMedia\<close>. With \<^verbatim>\<open>tagsMatchAll\<close> it is
  \<^verbatim>\<open>GROUP BY media_id HAVING COUNT(DISTINCT tag_id) = normalizedTags.size()\<close>, otherwise
  \<^verbatim>\<open>SELECT DISTINCT media_id\<close>; both over the \<^verbatim>\<open>media_tags\<close> rows whose tag is named
  in the list.
\<close>

definition matchingTagRows :: "database \<Rightarrow> string list \<Rightarrow> int \<Rightarrow> media_tag_row list" where
  "matchingTagRows db normalizedTags mediaId =
     filter (\<lambda>mt. fst mt = mediaId \<and> snd mt \<in> set (tagIdsNamed db normalizedTags))
       (media_tags db)"

definition tagClause :: "database \<Rightarrow> string list \<Rightarrow> bool \<Rightarrow> media_row \<Rightarrow> bool" where
  "tagClause db normalizedTags tagsMatchAll row =
     (let matching = matchingTagRows db normalizedTags (m_id row) in
      if tagsMatchAll
      then matching \<noteq> [] \<and> length (remdups (map snd matching)) = length normalizedTags
      else matching \<noteq> [])"

definition whereSQL ::
  "(string \<Rightarrow> string) \<Rightarrow> database \<Rightarrow> string list \<Rightarrow> string \<Rightarrow> string \<Rightarrow> bool \<Rightarrow> media_row \<Rightarrow> bool"
  where
  "whereSQL absolutePath db requiredTags searchText root tagsMatchAll row =
     (status_col row = ''active'' \<and>
      (searchText = [] \<or> sqlLike (''%'' @ searchText @ ''%'') (file_name row)) \<and>
      (requiredTags = [] \<or> tagClause db (map normalizeTag requiredTags) tagsMatchAll row) \<and>
      (root = [] \<or> root_dir row = absolutePath root))"

record QueryResult =
  records :: "MediaRecord list"
  totalCount :: int

definition queryMedia ::
  "(string \<Rightarrow> string) \<Rightarrow> database \<Rightarrow> string list \<Rightarrow> string \<Rightarrow> int \<Rightarrow> int \<Rightarrow>
   (media_row \<Rightarrow> media_row \<Rightarrow> bool) \<Rightarrow> string \<Rightarrow> bool \<Rightarrow> QueryResult" where
  "queryMedia absolutePath db requiredTags searchText lim off orderBy root tagsMatchAll =
     (let hits = filter (whereSQL absolutePath db requiredTags searchText root tagsMatchAll)
                   (media db)
      in \<lparr> records = map rowToRecord (limitOffset lim off (orderRows orderBy hits)),
           totalCount = int (length hits) \<rparr>)"

text \<open>
  \<^verbatim>\<open>Database::existingMediaMapForRoot\<close>: the \<^verbatim>\<open>QHash\<close> from path to the five columns the
  scanner reads; a later row of the same path overwrites an earlier one.
\<close>

record snapshot_entry =
  e_size_bytes :: "int option"
  e_modified_time_utc :: "int option"
  e_thumbnail_path :: "string option"
  e_sha256 :: "string option"
  e_media_type :: string

definition existingMediaMapForRoot ::
  "(string \<Rightarrow> string) \<Rightarrow> database \<Rightarrow> string \<Rightarrow> (string \<rightharpoonup> snapshot_entry)" where
  "existingMediaMapForRoot absolutePath db root =
     map_of (rev (map (\<lambda>row. (file_path row,
                              \<lparr> e_size_bytes = size_bytes row,
                                e_modified_time_utc = modified_time_utc row,
                                e_thumbnail_path = thumbnail_path row,
                                e_sha256 = sha256_col row,
                                e_media_type = media_type row \<rparr>))
                 (filter (\<lambda>row. root_dir row = absolutePath root \<and> status_col row = ''active'')
                    (media db))))"

text \<open>
  \<^verbatim>\<open>Database::tagCounts\<close>: \<^verbatim>\<open>tags LEFT JOIN media_tags LEFT JOIN media\<close> (the second join
  on \<^verbatim>\<open>m.id = mt.media_id AND m.status = 'active'\<close>), grouped by tag id, counting the
  joined rows whose \<^verbatim>\<open>mt.media_id\<close> is not \<^verbatim>\<open>NULL\<close>, ordered by name. A joined row is
  \<open>(tag, media_tags row or NULL, media row or NULL)\<close>.
\<close>

definition leftJoin :: "'a list \<Rightarrow> 'b list \<Rightarrow> ('a \<Rightarrow> 'b \<Rightarrow> bool) \<Rightarrow> ('a \<times> 'b option) list" where
  "leftJoin xs ys on =
     concat (map (\<lambda>x. case filter (on x) ys of
                        [] \<Rightarrow> [(x, None)]
                      | y # ys' \<Rightarrow> map (\<lambda>y'. (x, Some y')) (y # ys'))
               xs)"

definition tagCountsJoin ::
  "database \<Rightarrow> ((tag_row \<times> media_tag_row option) \<times> media_row option) list" where
  "tagCountsJoin db =
     leftJoin (leftJoin (tags db) (media_tags db) (\<lambda>t mt. snd mt = fst t)) (media db)
       (\<lambda>tmt m. case snd tmt of
                  None \<Rightarrow> False
                | Some mt \<Rightarrow> m_id m = fst mt \<and> status_col m = ''active'')"

definition tagCounts :: "database \<Rightarrow> (string \<times> int) list" where
  "tagCounts db =
     (let joined = tagCountsJoin db;
          groups = remdups (map (\<lambda>r. fst (fst (fst r))) joined)
      in sort_key fst
           (map (\<lambda>g. let rows = filter (\<lambda>r. fst (fst (fst r)) = g) joined
                      in (snd (fst (fst (hd rows))),
                          int (length (filter (\<lambda>r. snd (fst r) \<noteq> None) rows))))
              groups))"

text \<open>\<^verbatim>\<open>Database::untaggedCount\<close>.\<close>

definition untaggedCount :: "database \<Rightarrow> int" where
  "untaggedCount db =
     int (length (filter (\<lambda>row. status_col row = ''active'' \<and>
                                m_id row \<notin> set (map fst (media_tags db)))
                    (media db)))"

section \<open>ThumbnailCache.cpp\<close>

text \<open>
  \<^verbatim>\<open>QString("%1_%2").arg(mediaId).arg(targetSize)\<close>: both numbers in decimal.
\<close>

fun showNat :: "nat \<Rightarrow> string" where
  "showNat n =
     (if n < 10 then [''0123456789'' ! n]
      else showNat (n div 10) @ [''0123456789'' ! (n mod 10)])"

definition showInt :: "int \<Rightarrow> string" where
  "showInt i = (if i < 0 then CHR ''-'' # showNat (nat (- i)) else showNat (nat i))"

definition cacheKey :: "int \<Rightarrow> int \<Rightarrow> string" where
  "cacheKey mediaId targetSize = showInt mediaId @ ''_'' @ showInt targetSize"

text \<open>
  A \<^verbatim>\<open>QPixmap\<close> is a value of type \<open>'p option\<close>, \<open>None\<close> being the null pixmap. A
  \<^verbatim>\<open>ThumbnailLoadTask\<close> is its three members. The notifications are the two signals. An
  event is a call posted to the cache's thread with \<^verbatim>\<open>Qt::QueuedConnection\<close>: the two
  deferred \<^verbatim>\<open>emit\<close>s of \<^verbatim>\<open>requestThumbnail\<close> and the call a finished task
  posts, which holds the task and the pixmap it decoded.
\<close>

record loadTask =
  t_mediaId :: int
  t_path :: string
  t_targetSize :: int

datatype 'p notification = thumbnailLoaded int 'p | thumbnailFailed int

datatype 'p event =
    EmitLoaded int 'p
  | EmitFailed int
  | TaskFinished loadTask "'p option"

text \<open>
  The state of a \<^verbatim>\<open>ThumbnailCache\<close>: \<open>m_cache\<close> is the \<^verbatim>\<open>QCache\<close> (every entry has
  cost 1), most recently used first, of capacity \<open>maxCost\<close>; \<open>poolQueued\<close> are the
  tasks of \<^verbatim>\<open>m_threadPool\<close> not yet started, \<open>poolRunning\<close> those started and not yet
  finished; \<open>posted\<close> are the events waiting in the cache's thread; \<open>emitted\<close> are the
  notifications delivered so far, oldest first.
\<close>

record 'p thumbnailCache =
  m_cache :: "(string \<times> 'p) list"
  maxCost :: nat
  m_pendingRequests :: "int set"
  maxThreadCount :: nat
  poolQueued :: "loadTask list"
  poolRunning :: "loadTask list"
  posted :: "'p event list"
  emitted :: "'p notification list"
  m_currentPlaceholderSize :: int

definition newThumbnailCache :: "nat \<Rightarrow> nat \<Rightarrow> 'p thumbnailCache" where
  "newThumbnailCache cacheSize threadCount =
     \<lparr> m_cache = [], maxCost = cacheSize, m_pendingRequests = {},
       maxThreadCount = threadCount, poolQueued = [], poolRunning = [], posted = [],
       emitted = [], m_currentPlaceholderSize = 0 \<rparr>"

text \<open>\<^verbatim>\<open>QCache::object\<close>: a hit becomes the most recently used entry.\<close>

definition cacheObject :: "'p thumbnailCache \<Rightarrow> string \<Rightarrow> 'p thumbnailCache \<times> 'p option" where
  "cacheObject s key =
     (case map_of (m_cache s) key of
        None \<Rightarrow> (s, None)
      | Some pix \<Rightarrow>
          (s\<lparr> m_cache := (key, pix) # filter (\<lambda>e. fst e \<noteq> key) (m_cache s) \<rparr>, Some pix))"

text \<open>
  \<^verbatim>\<open>QCache::insert\<close> with cost 1: an entry of the same key is removed, the least
  recently used entries are dropped until the new one fits, and a cost above the capacity
  inserts nothing.
\<close>

definition cacheInsert :: "'p thumbnailCache \<Rightarrow> string \<Rightarrow> 'p \<Rightarrow> 'p thumbnailCache" where
  "cacheInsert s key pix =
     (let others = filter (\<lambda>e. fst e \<noteq> key) (m_cache s) in
      if maxCost s < 1 then s\<lparr> m_cache := others \<rparr>
      else s\<lparr> m_cache := (key, pix) # take (maxCost s - 1) others \<rparr>)"

text \<open>
  \<^verbatim>\<open>ThumbnailCache::getThumbnail\<close>: the cached pixmap, or \<open>None\<close> for the placeholder
  of the requested size.
\<close>

definition getThumbnail ::
  "'p thumbnailCache \<Rightarrow> int \<Rightarrow> string \<Rightarrow> int \<Rightarrow> 'p thumbnailCache \<times> 'p option" where
  "getThumbnail s mediaId path targetSize =
     (case cacheObject s (cacheKey mediaId targetSize) of
        (s', Some pix) \<Rightarrow> (s', Some pix)
      | (s', None) \<Rightarrow> (s'\<lparr> m_currentPlaceholderSize := targetSize \<rparr>, None))"

text \<open>\<^verbatim>\<open>QThreadPool::start\<close>: the task runs at once if a thread is free, else it waits.\<close>

definition poolStart :: "'p thumbnailCache \<Rightarrow> loadTask \<Rightarrow> 'p thumbnailCache" where
  "poolStart s task =
     (if length (poolRunning s) < maxThreadCount s
      then s\<lparr> poolRunning := poolRunning s @ [task] \<rparr>
      else s\<lparr> poolQueued := poolQueued s @ [task] \<rparr>)"

text \<open>
  \<^verbatim>\<open>ThumbnailCache::requestThumbnail\<close>; \<open>fileExists\<close> is \<^verbatim>\<open>QFileInfo::exists\<close> at the
  time of the call.
\<close>

definition requestThumbnail ::
  "(string \<Rightarrow> bool) \<Rightarrow> 'p thumbnailCache \<Rightarrow> int \<Rightarrow> string \<Rightarrow> int \<Rightarrow> 'p thumbnailCache" where
  "requestThumbnail fileExists s mediaId path targetSize =
     (let key = cacheKey mediaId targetSize in
      if key \<in> set (map fst (m_cache s))
      then (case cacheObject s key of
              (s', Some pix) \<Rightarrow> s'\<lparr> posted := posted s' @ [EmitLoaded mediaId pix] \<rparr>
            | (s', None) \<Rightarrow> s')
      else if mediaId \<in> m_pendingRequests s then s
      else if path = [] \<or> \<not> fileExists path
      then s\<lparr> posted := posted s @ [EmitFailed mediaId] \<rparr>
      else poolStart (s\<lparr> m_pendingRequests := insert mediaId (m_pendingRequests s) \<rparr>)
             \<lparr> t_mediaId = mediaId, t_path = path, t_targetSize = targetSize \<rparr>)"

text \<open>\<^verbatim>\<open>ThumbnailCache::cancelPendingRequests\<close>; \<^verbatim>\<open>QThreadPool::clear\<close> drops the tasks
  not yet started.\<close>

definition cancelPendingRequests :: "'p thumbnailCache \<Rightarrow> 'p thumbnailCache" where
  "cancelPendingRequests s = s\<lparr> m_pendingRequests := {}, poolQueued := [] \<rparr>"

text \<open>\<^verbatim>\<open>ThumbnailCache::cancelRequest\<close>.\<close>

definition cancelRequest :: "'p thumbnailCache \<Rightarrow> int \<Rightarrow> 'p thumbnailCache" where
  "cancelRequest s mediaId = s\<lparr> m_pendingRequests := m_pendingRequests s - {mediaId} \<rparr>"

text \<open>\<^verbatim>\<open>ThumbnailCache::clear\<close>.\<close>

definition clearCache :: "'p thumbnailCache \<Rightarrow> 'p thumbnailCache" where
  "clearCache s = s\<lparr> m_cache := [] \<rparr>"

text \<open>\<^verbatim>\<open>ThumbnailCache::onThumbnailLoaded\<close>.\<close>

definition onThumbnailLoaded ::
  "'p thumbnailCache \<Rightarrow> int \<Rightarrow> int \<Rightarrow> 'p option \<Rightarrow> 'p thumbnailCache" where
  "onThumbnailLoaded s mediaId targetSize pixmap =
     (if mediaId \<notin> m_pendingRequests s then s
      else
        (let s1 = s\<lparr> m_pendingRequests := m_pendingRequests s - {mediaId} \<rparr> in
         case pixmap of
           Some pix \<Rightarrow>
             (let s2 = cacheInsert s1 (cacheKey mediaId targetSize) pix
              in s2\<lparr> emitted := emitted s2 @ [thumbnailLoaded mediaId pix] \<rparr>)
         | None \<Rightarrow> s1\<lparr> emitted := emitted s1 @ [thumbnailFailed mediaId] \<rparr>))"

text \<open>
  What happens to a cache besides the calls of its owner. A waiting task is started when
  a thread is free. A running task finishes (\<^verbatim>\<open>ThumbnailLoadTask::run\<close>) with the pixmap
  it decoded, null when the file could not be read, and posts a call that captures the
  task's \<^verbatim>\<open>this\<close> and a copy of the pixmap. The cache's thread handles the oldest posted
  event.

  The posted call reads \<^verbatim>\<open>m_mediaId\<close> and \<^verbatim>\<open>m_targetSize\<close> through the captured
  \<^verbatim>\<open>this\<close> only when the cache's thread runs it. The task is created with
  \<^verbatim>\<open>setAutoDelete(true)\<close>, so the pool deletes it as soon as \<^verbatim>\<open>run\<close> returns, and the
  two members are then read from freed memory. \<open>readBack\<close> is what they read as:
  \<open>None\<close> when the memory still holds the task's own values, \<open>Some (id, size)\<close> when
  it holds other ones. (The member \<^verbatim>\<open>m_cache\<close> is read the same way; a run in which it
  no longer points to the cache has no defined behaviour and is not in this model.)
\<close>

definition startNext :: "'p thumbnailCache \<Rightarrow> 'p thumbnailCache" where
  "startNext s =
     (case poolQueued s of
        [] \<Rightarrow> s
      | task # rest \<Rightarrow>
          if length (poolRunning s) < maxThreadCount s
          then s\<lparr> poolQueued := rest, poolRunning := poolRunning s @ [task] \<rparr>
          else s)"

definition finishTask :: "'p thumbnailCache \<Rightarrow> nat \<Rightarrow> 'p option \<Rightarrow> 'p thumbnailCache" where
  "finishTask s i decoded =
     (if i < length (poolRunning s)
      then s\<lparr> poolRunning := take i (poolRunning s) @ drop (Suc i) (poolRunning s),
              posted := posted s @ [TaskFinished (poolRunning s ! i) decoded] \<rparr>
      else s)"

definition handleEvent :: "'p thumbnailCache \<Rightarrow> (int \<times> int) option \<Rightarrow> 'p thumbnailCache" where
  "handleEvent s readBack =
     (case posted s of
        [] \<Rightarrow> s
      | ev # rest \<Rightarrow>
          (let s' = s\<lparr> posted := rest \<rparr> in
           case ev of
             EmitLoaded mediaId pix \<Rightarrow> s'\<lparr> emitted := emitted s' @ [thumbnailLoaded mediaId pix] \<rparr>
           | EmitFailed mediaId \<Rightarrow> s'\<lparr> emitted := emitted s' @ [thumbnailFailed mediaId] \<rparr>
           | TaskFinished task pixmap \<Rightarrow>
               (case readBack of
                  None \<Rightarrow> onThumbnailLoaded s' (t_mediaId task) (t_targetSize task) pixmap
                | Some (mediaId, targetSize) \<Rightarrow>
                    onThumbnailLoaded s' mediaId targetSize pixmap)))"

text \<open>One step of a cache's history, and a history.\<close>

datatype 'p cacheOp =
    Request int string int
  | CancelAll
  | CancelOne int
  | Clear
  | Get int string int
  | StartNext
  | Finish nat "'p option"
  | HandleEvent "(int \<times> int) option"

fun cacheStep :: "(string \<Rightarrow> bool) \<Rightarrow> 'p thumbnailCache \<Rightarrow> 'p cacheOp \<Rightarrow> 'p thumbnailCache" where
  "cacheStep fileExists s (Request mediaId path targetSize) =
     requestThumbnail fileExists s mediaId path targetSize"
| "cacheStep fileExists s CancelAll = cancelPendingRequests s"
| "cacheStep fileExists s (CancelOne mediaId) = cancelRequest s mediaId"
| "cacheStep fileExists s Clear = clearCache s"
| "cacheStep fileExists s (Get mediaId path targetSize) =
     fst (getThumbnail s mediaId path targetSize)"
| "cacheStep fileExists s StartNext = startNext s"
| "cacheStep fileExists s (Finish i decoded) = finishTask s i decoded"
| "cacheStep fileExists s (HandleEvent readBack) = handleEvent s readBack"

definition cacheRun ::
  "(string \<Rightarrow> bool) \<Rightarrow> 'p thumbnailCache \<Rightarrow> 'p cacheOp list \<Rightarrow> 'p thumbnailCache" where
  "cacheRun fileExists s ops = fold (\<lambda>op st. cacheStep fileExists st op) ops s"

text \<open>Whether a step is a call of \<^verbatim>\<open>requestThumbnail\<close> for media id \<open>m\<close>.\<close>

fun isRequestFor :: "int \<Rightarrow> 'p cacheOp \<Rightarrow> bool" where
  "isRequestFor m (Request mediaId path targetSize) = (mediaId = m)"
| "isRequestFor m _ = False"

section \<open>Scanner.cpp\<close>

text \<open>
  The file system as the scanner sees it: the files in the order \<^verbatim>\<open>QDirIterator\<close>
  yields them, each with what the scanner's probes answer for it. \<open>contentHash\<close> is the
  hex SHA-256 of the bytes, \<open>readable\<close> whether \<^verbatim>\<open>QFile::open\<close> succeeds,
  \<open>imageDecodes\<close> whether \<^verbatim>\<open>QImage\<close> loads the file, \<open>videoOpens\<close> whether OpenCV opens
  it and reads a frame, \<open>imagePHash\<close>, \<open>imageSize\<close>, \<open>exifTime\<close> and \<open>videoSize\<close>
  the results of \<^verbatim>\<open>computeImagePHash\<close>, \<^verbatim>\<open>getImageDimensions\<close>,
  \<^verbatim>\<open>getImageCaptureTime\<close> and \<^verbatim>\<open>getVideoDimensions\<close>. \<open>throwing\<close> is the \<^verbatim>\<open>what()\<close> of
  a \<^verbatim>\<open>std::exception\<close> that reading the file in full raises, if any. Directories are
  not modelled: a path is under a directory when the directory's path and a slash begin
  it.
\<close>

record fileEntry =
  fileSize :: int
  lastModified :: int
  readable :: bool
  contentHash :: string
  imageDecodes :: bool
  imagePHash :: string
  imageSize :: "int \<times> int"
  exifTime :: int
  videoOpens :: bool
  videoSize :: "int \<times> int"
  throwing :: "string option"

type_synonym filesystem = "(string \<times> fileEntry) list"

text \<open>What the probes answer for a path that names no file.\<close>

definition absentFile :: fileEntry where
  "absentFile =
     \<lparr> fileSize = 0, lastModified = 0, readable = False, contentHash = [],
       imageDecodes = False, imagePHash = [], imageSize = (- 1, - 1), exifTime = 0,
       videoOpens = False, videoSize = (0, 0), throwing = None \<rparr>"

definition entryAt :: "filesystem \<Rightarrow> string \<Rightarrow> fileEntry" where
  "entryAt fs path = (case map_of fs path of None \<Rightarrow> absentFile | Some f \<Rightarrow> f)"

text \<open>\<^verbatim>\<open>QFile::exists\<close>.\<close>

definition qFileExists :: "filesystem \<Rightarrow> string \<Rightarrow> bool" where
  "qFileExists fs path = (path \<in> set (map fst fs))"

text \<open>Writing a file: an existing one is overwritten in place, a new one comes last.\<close>

definition writeFile :: "filesystem \<Rightarrow> string \<Rightarrow> fileEntry \<Rightarrow> filesystem" where
  "writeFile fs path f =
     (if qFileExists fs path
      then map (\<lambda>e. if fst e = path then (path, f) else e) fs
      else fs @ [(path, f)])"

text \<open>\<^verbatim>\<open>QFileInfo::fileName\<close>, \<^verbatim>\<open>QFileInfo::suffix\<close> and \<^verbatim>\<open>QDir::filePath\<close>.\<close>

definition fileNameOf :: "string \<Rightarrow> string" where
  "fileNameOf path = rev (takeWhile (\<lambda>c. c \<noteq> CHR ''/'') (rev path))"

definition suffixOf :: "string \<Rightarrow> string" where
  "suffixOf path =
     (let name = fileNameOf path in
      if CHR ''.'' \<in> set name then rev (takeWhile (\<lambda>c. c \<noteq> CHR ''.'') (rev name)) else [])"

definition dirFilePath :: "string \<Rightarrow> string \<Rightarrow> string" where
  "dirFilePath dir name =
     (if dir = [] then name
      else if last dir = CHR ''/'' then dir @ name
      else dir @ ''/'' @ name)"

definition isUnder :: "string \<Rightarrow> string \<Rightarrow> bool" where
  "isUnder dir path =
     (let d = dirFilePath dir [] in length d < length path \<and> take (length d) path = d)"

text \<open>\<^verbatim>\<open>Scanner::isImageFile\<close>, \<^verbatim>\<open>Scanner::isVideoFile\<close>, \<^verbatim>\<open>Scanner::isAudioFile\<close>.\<close>

definition isImageFile :: "string \<Rightarrow> bool" where
  "isImageFile path = (''.'' @ toLower (suffixOf path) \<in> set IMAGE_EXTENSIONS)"

definition isVideoFile :: "string \<Rightarrow> bool" where
  "isVideoFile path = (''.'' @ toLower (suffixOf path) \<in> set VIDEO_EXTENSIONS)"

definition isAudioFile :: "string \<Rightarrow> bool" where
  "isAudioFile path = (''.'' @ toLower (suffixOf path) \<in> set AUDIO_EXTENSIONS)"

text \<open>
  \<^verbatim>\<open>Scanner::listMediaFiles\<close>: every file under the root, sub-directories included,
  whose extension is a media extension.
\<close>

definition listMediaFiles :: "(string \<Rightarrow> string) \<Rightarrow> filesystem \<Rightarrow> string \<Rightarrow> string list" where
  "listMediaFiles absolutePath fs root =
     filter (\<lambda>path. isUnder (absolutePath root) path \<and>
                     (isImageFile path \<or> isVideoFile path \<or> isAudioFile path))
       (map fst fs)"

text \<open>\<^verbatim>\<open>ScannerWorker::computeSha256\<close>: the empty string when the file cannot be opened.\<close>

definition computeSha256 :: "filesystem \<Rightarrow> string \<Rightarrow> string" where
  "computeSha256 fs path =
     (if readable (entryAt fs path) then contentHash (entryAt fs path) else [])"

text \<open>
  \<^verbatim>\<open>ScannerWorker::createImageThumbnail\<close> and \<^verbatim>\<open>createVideoThumbnail\<close>: \<^verbatim>\<open>false\<close> when
  the source does not decode, else the JPEG is written to \<^verbatim>\<open>destPath\<close>. \<open>thumbnailOf\<close>
  gives the file the encoder writes for a source.
\<close>

definition createImageThumbnail ::
  "(fileEntry \<Rightarrow> fileEntry) \<Rightarrow> filesystem \<Rightarrow> string \<Rightarrow> string \<Rightarrow> filesystem \<times> bool" where
  "createImageThumbnail thumbnailOf fs sourcePath destPath =
     (if imageDecodes (entryAt fs sourcePath)
      then (writeFile fs destPath (thumbnailOf (entryAt fs sourcePath)), True)
      else (fs, False))"

definition createVideoThumbnail ::
  "(fileEntry \<Rightarrow> fileEntry) \<Rightarrow> filesystem \<Rightarrow> string \<Rightarrow> string \<Rightarrow> filesystem \<times> bool" where
  "createVideoThumbnail thumbnailOf fs sourcePath destPath =
     (if videoOpens (entryAt fs sourcePath)
      then (writeFile fs destPath (thumbnailOf (entryAt fs sourcePath)), True)
      else (fs, False))"

record ScanResult =
  scanned :: int
  addedOrUpdated :: int
  errors :: int

text \<open>What a run of \<^verbatim>\<open>ScannerWorker::process\<close> works on and leaves behind.\<close>

record scanState =
  s_fs :: filesystem
  s_db :: database
  s_result :: ScanResult

text \<open>
  The branch of the loop body that regenerates a missing thumbnail for a file whose
  snapshot entry matches.
\<close>

definition refreshThumbnail ::
  "(fileEntry \<Rightarrow> fileEntry) \<Rightarrow> string \<Rightarrow> snapshot_entry \<Rightarrow> scanState \<Rightarrow> string \<Rightarrow> scanState"
  where
  "refreshThumbnail thumbnailOf m_thumbnailsDir prev st path =
     (let existingThumb = toString (e_thumbnail_path prev);
          thumbPath = dirFilePath m_thumbnailsDir (toString (e_sha256 prev) @ ''.jpg'');
          (fs', thumbCreated) =
            (if isImageFile path then createImageThumbnail thumbnailOf (s_fs st) path thumbPath
             else if isVideoFile path
             then createVideoThumbnail thumbnailOf (s_fs st) path thumbPath
             else (s_fs st, False));
          db' = (if thumbCreated \<and> thumbPath \<noteq> existingThumb
                 then updateThumbnailPath (s_db st) path thumbPath
                 else s_db st)
      in \<lparr> s_fs = fs', s_db = db',
           s_result = (s_result st)\<lparr> scanned := scanned (s_result st) + 1 \<rparr> \<rparr>)"

text \<open>
  The branch of the loop body \<^verbatim>\<open>Full processing for new or changed files\<close>, up to the
  \<^verbatim>\<open>upsertMedia\<close> of the record; the \<^verbatim>\<open>scanned++\<close> after the \<^verbatim>\<open>try\<close> is done by the
  caller.
\<close>

definition fullProcessing ::
  "(fileEntry \<Rightarrow> fileEntry) \<Rightarrow> string \<Rightarrow> string \<Rightarrow> scanState \<Rightarrow> string \<Rightarrow> scanState" where
  "fullProcessing thumbnailOf m_rootDir m_thumbnailsDir st path =
     (let fs = s_fs st;
          f = entryAt fs path;
          ext = ''.'' @ toLower (suffixOf path);
          sha = computeSha256 fs path;
          thumbPath0 = dirFilePath m_thumbnailsDir (sha @ ''.jpg'');
          ty = typeFromExtension ext;
          (fs', hash, dims, capturedTime, thumbPath) =
            (case ty of
               Image \<Rightarrow>
                 (if \<not> qFileExists fs thumbPath0
                  then fst (createImageThumbnail thumbnailOf fs path thumbPath0) else fs,
                  imagePHash f, imageSize f, exifTime f, thumbPath0)
             | Video \<Rightarrow>
                 (if \<not> qFileExists fs thumbPath0
                  then (case createVideoThumbnail thumbnailOf fs path thumbPath0 of
                          (fs1, ok) \<Rightarrow> (fs1, [], videoSize f, 0, if ok then thumbPath0 else []))
                  else (fs, [], videoSize f, 0, thumbPath0))
             | _ \<Rightarrow> (fs, [], (0, 0), 0, []));
          record = newMediaRecord
            \<lparr> filePath := path, rootDir := m_rootDir, fileName := fileNameOf path,
              sha256 := sha, pHash := hash,
              width := (if 0 < fst dims then Some (fst dims) else None),
              height := (if 0 < snd dims then Some (snd dims) else None),
              sizeBytes := Some (fileSize f),
              capturedTimeUtc := (if 0 < capturedTime then Some capturedTime else None),
              modifiedTimeUtc := Some (lastModified f),
              mediaType := ty, thumbnailPath := thumbPath \<rparr>;
          (db', mediaId) = upsertMedia (s_db st) record
      in \<lparr> s_fs = fs', s_db = db',
           s_result = (if 0 < mediaId
                       then (s_result st)\<lparr> addedOrUpdated := addedOrUpdated (s_result st) + 1 \<rparr>
                       else s_result st) \<rparr>)"

text \<open>The \<^verbatim>\<open>catch (const std::exception& e)\<close> block: the error record and \<^verbatim>\<open>errors++\<close>.\<close>

definition recordError :: "string \<Rightarrow> scanState \<Rightarrow> string \<Rightarrow> string \<Rightarrow> scanState" where
  "recordError m_rootDir st path what =
     (let errorRecord = newMediaRecord
            \<lparr> filePath := path, rootDir := m_rootDir, fileName := fileNameOf path,
              mediaType := typeFromExtension (''.'' @ toLower (suffixOf path)),
              error := what \<rparr>
      in st\<lparr> s_db := fst (upsertMedia (s_db st) errorRecord),
             s_result := (s_result st)\<lparr> errors := errors (s_result st) + 1 \<rparr> \<rparr>)"

text \<open>
  One iteration of the loop of \<^verbatim>\<open>ScannerWorker::process\<close>. \<open>existingMap\<close> is the
  snapshot taken before the loop. An exception is raised, if the file raises one, where
  the file is first read: in \<^verbatim>\<open>computeSha256\<close>.
\<close>

definition processFile ::
  "(fileEntry \<Rightarrow> fileEntry) \<Rightarrow> string \<Rightarrow> string \<Rightarrow> (string \<rightharpoonup> snapshot_entry) \<Rightarrow>
   scanState \<Rightarrow> string \<Rightarrow> scanState" where
  "processFile thumbnailOf m_rootDir m_thumbnailsDir existingMap st path =
     (let f = entryAt (s_fs st) path;
          matching =
            (case existingMap path of
               None \<Rightarrow> None
             | Some prev \<Rightarrow>
                 if toLongLong (e_size_bytes prev) = fileSize f \<and>
                    toLongLong (e_modified_time_utc prev) = lastModified f \<and>
                    toString (e_sha256 prev) \<noteq> []
                 then Some prev else None)
      in case matching of
           Some prev \<Rightarrow>
             if toString (e_thumbnail_path prev) \<noteq> [] \<and>
                qFileExists (s_fs st) (toString (e_thumbnail_path prev))
             then st\<lparr> s_result := (s_result st)\<lparr> scanned := scanned (s_result st) + 1 \<rparr> \<rparr>
             else refreshThumbnail thumbnailOf m_thumbnailsDir prev st path
         | None \<Rightarrow>
             (let st' = (case throwing f of
                           Some what \<Rightarrow> recordError m_rootDir st path what
                         | None \<Rightarrow> fullProcessing thumbnailOf m_rootDir m_thumbnailsDir st path)
              in st'\<lparr> s_result := (s_result st')\<lparr> scanned := scanned (s_result st') + 1 \<rparr> \<rparr>))"

text \<open>
  \<^verbatim>\<open>ScannerWorker::process\<close>, with the constructor's \<^verbatim>\<open>m_rootDir\<close> and
  \<^verbatim>\<open>m_thumbnailsDir\<close>. \<open>maxVariables\<close> is the parameter limit of the SQLite library,
  for \<^verbatim>\<open>markMissingFilesDeleted\<close>. \<open>cancelAfter\<close> is the number of iterations after
  which the loop sees \<^verbatim>\<open>m_cancelled\<close> set, if it does. The run starts with a zero
  \<^verbatim>\<open>ScanResult\<close>.
\<close>

definition process ::
  "(string \<Rightarrow> string) \<Rightarrow> int \<Rightarrow> (fileEntry \<Rightarrow> fileEntry) \<Rightarrow> nat option \<Rightarrow>
   filesystem \<times> database \<Rightarrow> string \<Rightarrow> string \<Rightarrow> scanState" where
  "process absolutePath maxVariables thumbnailOf cancelAfter world root thumbnailsDir =
     (let m_rootDir = absolutePath root;
          m_thumbnailsDir =
            (if thumbnailsDir = [] then dirFilePath m_rootDir ''thumbnails'' else thumbnailsDir);
          files = listMediaFiles absolutePath (fst world) m_rootDir;
          db1 = fst (markMissingFilesDeleted absolutePath maxVariables (snd world)
                       (map Some files) m_rootDir);
          existingMap = existingMediaMapForRoot absolutePath db1 m_rootDir;
          todo = (case cancelAfter of None \<Rightarrow> files | Some n \<Rightarrow> take n files)
      in fold (\<lambda>path st. processFile thumbnailOf m_rootDir m_thumbnailsDir existingMap st path)
           todo
           \<lparr> s_fs = fst world, s_db = db1,
             s_result = \<lparr> scanned = 0, addedOrUpdated = 0, errors = 0 \<rparr> \<rparr>)"

text \<open>
  The condition of the fast skip in the loop body: the snapshot has the path with the
  file's size and time, a hash, and a thumbnail path that names an existing file.
\<close>

definition fastSkip :: "(string \<rightharpoonup> snapshot_entry) \<Rightarrow> filesystem \<Rightarrow> string \<Rightarrow> bool" where
  "fastSkip existingMap fs path =
     (case existingMap path of
        None \<Rightarrow> False
      | Some prev \<Rightarrow>
          toLongLong (e_size_bytes prev) = fileSize (entryAt fs path) \<and>
          toLongLong (e_modified_time_utc prev) = lastModified (entryAt fs path) \<and>
          toString (e_sha256 prev) \<noteq> [] \<and>
          toString (e_thumbnail_path prev) \<noteq> [] \<and>
          qFileExists fs (toString (e_thumbnail_path prev)))"

section \<open>Schema constraints\<close>

text \<open>
  The constraints of the schema: \<^verbatim>\<open>media.id\<close> and \<^verbatim>\<open>tags.id\<close> are primary keys,
  \<^verbatim>\<open>media.file_path\<close> and \<^verbatim>\<open>tags.name\<close> are \<^verbatim>\<open>UNIQUE\<close>, and \<^verbatim>\<open>(media_id, tag_id)\<close>
  is the primary key of \<^verbatim>\<open>media_tags\<close>. Every operation keeps them.
\<close>

definition schemaOK :: "database \<Rightarrow> bool" where
  "schemaOK db =
     (distinct (map m_id (media db)) \<and> distinct (map file_path (media db)) \<and>
      distinct (map fst (tags db)) \<and> distinct (map snd (tags db)) \<and>
      distinct (media_tags db))"

text \<open>
  The rows \<^verbatim>\<open>tags LEFT JOIN media_tags\<close> yields for one tag: one row per association,
  or a single row with \<^verbatim>\<open>NULL\<close>s when the tag has none.
\<close>

definition tagBlock :: "database \<Rightarrow> tag_row \<Rightarrow> (tag_row \<times> media_tag_row option) list" where
  "tagBlock db t =
     (case filter (\<lambda>mt. snd mt = fst t) (media_tags db) of
        [] \<Rightarrow> [(t, None)]
      | y # ys' \<Rightarrow> map (\<lambda>y'. (t, Some y')) (y # ys'))"

section \<open>Example stores\<close>

text \<open>A record as the scanner fills it for a file it has only named.\<close>

definition namedRecord :: "string \<Rightarrow> string \<Rightarrow> string \<Rightarrow> MediaRecord" where
  "namedRecord root path name =
     newMediaRecord\<lparr> filePath := path, rootDir := root, fileName := name \<rparr>"

text \<open>A new store with the one file \<^verbatim>\<open>/r/a.jpg\<close> (id 1), tagged \<^verbatim>\<open>z\<close>.\<close>

definition storeOneTagged :: "bool \<Rightarrow> database" where
  "storeOneTagged fk =
     addMediaTags
       (fst (upsertMedia (initializeSchema fk) (namedRecord ''/r'' ''/r/a.jpg'' ''a.jpg'')))
       1 [''z'']"

text \<open>Three files, two under \<^verbatim>\<open>/r\<close> and one under \<^verbatim>\<open>/s\<close> (ids 1, 2, 3).\<close>

definition storeTwoRoots :: database where
  "storeTwoRoots =
     fst (upsertMedia
       (fst (upsertMedia
         (fst (upsertMedia (initializeSchema False) (namedRecord ''/r'' ''/r/a.jpg'' ''a.jpg'')))
         (namedRecord ''/r'' ''/r/b.jpg'' ''b.jpg'')))
       (namedRecord ''/s'' ''/s/c.jpg'' ''c.jpg''))"

text \<open>
  Media A, B, C (ids 1, 2, 3) with A tagged \<^verbatim>\<open>x\<close> and \<^verbatim>\<open>y\<close>, B tagged \<^verbatim>\<open>x\<close>, C tagged
  \<^verbatim>\<open>y\<close>.
\<close>

definition storeABC :: database where
  "storeABC =
     addMediaTags
       (addMediaTags
          (addMediaTags
             (fst (upsertMedia
                (fst (upsertMedia
                   (fst (upsertMedia (initializeSchema False)
                           (namedRecord ''/r'' ''/r/A.jpg'' ''A.jpg'')))
                   (namedRecord ''/r'' ''/r/B.jpg'' ''B.jpg'')))
                (namedRecord ''/r'' ''/r/C.jpg'' ''C.jpg'')))
             1 [''x'', ''y''])
          2 [''x''])
       3 [''y'']"

text \<open>
  A file the scanner can hash and decode, one it cannot open, and the JPEG the thumbnail
  encoder writes for a source (other bytes than the source, hence another hash).
\<close>

definition jpegOf :: "fileEntry \<Rightarrow> fileEntry" where
  "jpegOf f =
     \<lparr> fileSize = 500, lastModified = 20, readable = True,
       contentHash = ''t'' @ contentHash f,
       imageDecodes = True, imagePHash = imagePHash f, imageSize = (512, 512), exifTime = 0,
       videoOpens = False, videoSize = (0, 0), throwing = None \<rparr>"

definition goodImage :: fileEntry where
  "goodImage =
     \<lparr> fileSize = 1000, lastModified = 10, readable = True, contentHash = ''aa'',
       imageDecodes = True, imagePHash = ''00ff'', imageSize = (100, 100), exifTime = 0,
       videoOpens = False, videoSize = (0, 0), throwing = None \<rparr>"

definition unreadableFile :: fileEntry where
  "unreadableFile =
     \<lparr> fileSize = 1000, lastModified = 10, readable = False, contentHash = ''aa'',
       imageDecodes = False, imagePHash = [], imageSize = (- 1, - 1), exifTime = 0,
       videoOpens = False, videoSize = (0, 0), throwing = None \<rparr>"

text \<open>Two scans of the same root in a row, the first on a new store.\<close>

definition scanTwice :: "filesystem \<Rightarrow> string \<Rightarrow> string \<Rightarrow> scanState \<times> scanState" where
  "scanTwice fs root thumbnailsDir =
     (let st1 = process (\<lambda>p. p) SQLITE_MAX_VARIABLE_NUMBER jpegOf None (fs, initializeSchema False)
                  root thumbnailsDir;
          st2 = process (\<lambda>p. p) SQLITE_MAX_VARIABLE_NUMBER jpegOf None (s_fs st1, s_db st1)
                  root thumbnailsDir
      in (st1, st2))"


text \<open>
  The paths of \<open>n\<close> media files under \<^verbatim>\<open>/r\<close>, named \<^verbatim>\<open>f0.jpg\<close>, \<^verbatim>\<open>f1.jpg\<close> and so on,
  as a list of \<^verbatim>\<open>QString\<close>s none of which is null.
\<close>

definition manyPaths :: "nat \<Rightarrow> string option list" where
  "manyPaths n = map (\<lambda>i. Some (''/r/f'' @ showNat i @ ''.jpg'')) [0..<n]"

section \<open>The schema constraints are invariants\<close>

lemma fold_max_ge: "(y::int) \<le> fold max xs y"
proof (induction xs arbitrary: y)
  case Nil then show ?case by simp
next
  case (Cons a xs)
  have "y \<le> max a y" by simp
  also have "\<dots> \<le> fold max xs (max a y)" by (rule Cons.IH)
  finally show ?case by simp
qed

lemma fold_max_mem: "(x::int) \<in> set xs \<Longrightarrow> x \<le> fold max xs y"
proof (induction xs arbitrary: y)
  case Nil then show ?case by simp
next
  case (Cons a xs)
  show ?case
  proof (cases "x = a")
    case True
    have "max a y \<le> fold max xs (max a y)" by (rule fold_max_ge)
    with True show ?thesis by simp
  next
    case False
    with Cons show ?thesis by simp
  qed
qed

lemma nextRowid_fresh: "nextRowid ids \<notin> set ids"
proof (cases ids)
  case Nil then show ?thesis by (simp add: nextRowid_def)
next
  case (Cons x xs)
  have "\<forall>i \<in> set (x # xs). i \<le> fold max xs x"
    using fold_max_ge[of x xs] fold_max_mem[of _ xs x] by auto
  then show ?thesis using Cons by (auto simp add: nextRowid_def)
qed

lemma schemaOK_initializeSchema: "schemaOK (initializeSchema fk)"
  by (simp add: schemaOK_def initializeSchema_def)

lemma comp_if_same: "(\<And>x. f (g x) = f x) \<Longrightarrow> f \<circ> (\<lambda>x. if P x then g x else x) = f"
  by (auto simp: fun_eq_iff)

lemma m_id_comp_if:
  "m_id \<circ> (\<lambda>row. if P row then upsertRow r row else row) = m_id"
  "m_id \<circ> (\<lambda>row. if P row then row\<lparr> thumbnail_path := t \<rparr> else row) = m_id"
  "m_id \<circ> (\<lambda>row. if P row then row\<lparr> status_col := s \<rparr> else row) = m_id"
  by (rule comp_if_same, simp add: upsertRow_def)+

lemma file_path_comp_if:
  "file_path \<circ> (\<lambda>row. if P row then upsertRow r row else row) = file_path"
  "file_path \<circ> (\<lambda>row. if P row then row\<lparr> thumbnail_path := t \<rparr> else row) = file_path"
  "file_path \<circ> (\<lambda>row. if P row then row\<lparr> status_col := s \<rparr> else row) = file_path"
  by (rule comp_if_same, simp add: upsertRow_def)+

lemma schemaOK_upsertMedia: "schemaOK db \<Longrightarrow> schemaOK (fst (upsertMedia db r))"
  using nextRowid_fresh[of "map m_id (media db)"]
  by (auto simp: schemaOK_def upsertMedia_def Let_def m_id_comp_if file_path_comp_if insertRow_def)

lemma schemaOK_deleteMedia: "schemaOK db \<Longrightarrow> schemaOK (fst (deleteMedia db path))"
  by (auto simp: schemaOK_def deleteMedia_def Let_def distinct_map_filter)

lemma schemaOK_updateThumbnailPath: "schemaOK db \<Longrightarrow> schemaOK (updateThumbnailPath db path thumb)"
  by (auto simp: schemaOK_def updateThumbnailPath_def m_id_comp_if file_path_comp_if)

lemma schemaOK_markMissingFilesDeleted:
  "schemaOK db \<Longrightarrow> schemaOK (fst (markMissingFilesDeleted ap mv db paths root))"
  by (auto simp: schemaOK_def markMissingFilesDeleted_def Let_def m_id_comp_if file_path_comp_if)

lemma schemaOK_insertTag: "schemaOK db \<Longrightarrow> schemaOK (insertTag db n)"
  using nextRowid_fresh[of "map fst (tags db)"]
  by (auto simp: schemaOK_def insertTag_def)

lemma schemaOK_upsertTags: "schemaOK db \<Longrightarrow> schemaOK (fst (upsertTags db ns))"
  by (induction db ns rule: upsertTags.induct)
     (auto simp: Let_def schemaOK_insertTag split: prod.splits)

lemma schemaOK_insertMediaTag: "schemaOK db \<Longrightarrow> schemaOK (insertMediaTag m t db)"
  by (auto simp: schemaOK_def insertMediaTag_def)

lemma schemaOK_fold_insertMediaTag: "schemaOK db \<Longrightarrow> schemaOK (fold (insertMediaTag m) ts db)"
  by (induction ts arbitrary: db) (auto simp: schemaOK_insertMediaTag)

lemma schemaOK_addMediaTags: "schemaOK db \<Longrightarrow> schemaOK (addMediaTags db m ns)"
  using schemaOK_upsertTags[of db ns]
  by (auto simp: addMediaTags_def split: prod.splits intro: schemaOK_fold_insertMediaTag)

lemma schemaOK_setMediaTags: "schemaOK db \<Longrightarrow> schemaOK (setMediaTags db m ns)"
proof -
  assume a: "schemaOK db"
  obtain db1 ids where u: "upsertTags db ns = (db1, ids)" by (cases "upsertTags db ns")
  have "schemaOK db1" using schemaOK_upsertTags[OF a, of ns] u by simp
  then have "schemaOK (db1\<lparr> media_tags := filter (\<lambda>mt. fst mt \<noteq> m) (media_tags db1) \<rparr>)"
    by (simp add: schemaOK_def)
  then show ?thesis
    by (simp add: setMediaTags_def u Let_def schemaOK_fold_insertMediaTag)
qed

lemma schemaOK_fold_deleteMediaTag: "schemaOK db \<Longrightarrow> schemaOK (fold (deleteMediaTag m) ts db)"
  by (induction ts arbitrary: db) (auto simp: schemaOK_def deleteMediaTag_def)

lemma schemaOK_removeMediaTags: "schemaOK db \<Longrightarrow> schemaOK (removeMediaTags db m ns)"
  by (simp add: removeMediaTags_def Let_def schemaOK_fold_deleteMediaTag)

lemma schemaOK_removeTagGlobally: "schemaOK db \<Longrightarrow> schemaOK (fst (removeTagGlobally db n))"
  by (auto simp: removeTagGlobally_def Let_def schemaOK_def distinct_map_filter split: list.splits)

lemma schemaOK_storeABC: "schemaOK storeABC"
  by (simp add: storeABC_def schemaOK_initializeSchema schemaOK_upsertMedia
      schemaOK_addMediaTags)

section \<open>Tag lifetime\<close>








section \<open>Referential integrity of \<^verbatim>\<open>media_tags\<close>\<close>

lemma deleteMedia_cascade:
  "foreign_keys db \<Longrightarrow>
   fst ` set (media_tags (fst (deleteMedia db path))) \<inter>
   m_id ` {row \<in> set (media db). file_path row = path} = {}"
  by (auto simp: deleteMedia_def Let_def)

lemma deleteMedia_no_cascade:
  "\<not> foreign_keys db \<Longrightarrow> media_tags (fst (deleteMedia db path)) = media_tags db"
  by (simp add: deleteMedia_def Let_def)

text \<open>
  C3. The claim: after \<^verbatim>\<open>deleteMedia(path)\<close> no \<^verbatim>\<open>media_tags\<close> row references the
  deleted media row. The schema declares \<^verbatim>\<open>ON DELETE CASCADE\<close>, but the connection
  never turns foreign-key enforcement on. On the store with the one file tagged \<^verbatim>\<open>z\<close>,
  opened as SQLite opens it by default, \<^verbatim>\<open>deleteMedia\<close> empties \<^verbatim>\<open>media\<close> and leaves the
  association \<open>(1, 1)\<close> behind; the next file inserted is given the free id 1 and so
  carries the tag of the deleted one. With enforcement on, the association goes with the
  row.
\<close>

theorem C3_deleteMedia_leaves_dangling_association:
  "media (fst (deleteMedia (storeOneTagged False) ''/r/a.jpg'')) = [] \<and>
   media_tags (fst (deleteMedia (storeOneTagged False) ''/r/a.jpg'')) = [(1, 1)] \<and>
   getMediaTags
     (fst (upsertMedia (fst (deleteMedia (storeOneTagged False) ''/r/a.jpg''))
             (namedRecord ''/r'' ''/r/b.jpg'' ''b.jpg''))) 1 = [''z''] \<and>
   media_tags (fst (deleteMedia (storeOneTagged True) ''/r/a.jpg'')) = []"
  by code_simp

section \<open>Soft deletion of vanished files\<close>

text \<open>
  While the statement stays within the parameter limit and no path is null, exactly the
  active rows under the root whose path is not listed are marked, the count is theirs,
  and nothing else changes.
\<close>

lemma markMissingFilesDeleted_within_limit:
  assumes "int (length existingPaths) < maxVariables" and "None \<notin> set existingPaths"
  shows "media (fst (markMissingFilesDeleted absolutePath maxVariables db existingPaths root)) =
           map (\<lambda>row. if root_dir row = absolutePath root \<and> status_col row = ''active'' \<and>
                          Some (file_path row) \<notin> set existingPaths
                       then row\<lparr> status_col := ''deleted'' \<rparr> else row) (media db)"
    and "snd (markMissingFilesDeleted absolutePath maxVariables db existingPaths root) =
           int (length (filter (\<lambda>row. root_dir row = absolutePath root \<and>
                                      status_col row = ''active'' \<and>
                                      Some (file_path row) \<notin> set existingPaths) (media db)))"
    and "tags (fst (markMissingFilesDeleted absolutePath maxVariables db existingPaths root)) =
           tags db"
    and "media_tags (fst (markMissingFilesDeleted absolutePath maxVariables db existingPaths root)) =
           media_tags db"
  using assms by (auto simp add: markMissingFilesDeleted_def Let_def)

text \<open>
  Past the limit, and with a null path in the list, nothing is marked and the result is 0.
\<close>

lemma markMissingFilesDeleted_too_many:
  "maxVariables \<le> int (length existingPaths) \<Longrightarrow>
   markMissingFilesDeleted absolutePath maxVariables db existingPaths root = (db, 0)"
  by (simp add: markMissingFilesDeleted_def Let_def)

lemma markMissingFilesDeleted_null_path:
  "None \<in> set existingPaths \<Longrightarrow>
   markMissingFilesDeleted absolutePath maxVariables db existingPaths root = (db, 0)"
proof -
  assume n: "None \<in> set existingPaths"
  then have ne: "existingPaths \<noteq> []" by auto
  have "map (\<lambda>row. row) (media db) = media db" by simp
  then have "db\<lparr> media := map (\<lambda>row. row) (media db) \<rparr> = db" by simp
  then show ?thesis using n ne by (simp add: markMissingFilesDeleted_def Let_def)
qed

lemma storeTwoRoots_rows:
  "map (\<lambda>row. (file_path row, root_dir row, status_col row)) (media storeTwoRoots) =
      [(''/r/a.jpg'', ''/r'', ''active''), (''/r/b.jpg'', ''/r'', ''active''),
       (''/s/c.jpg'', ''/s'', ''active'')]"
  by code_simp

lemma markMissingFilesDeleted_storeTwoRoots:
  "map status_col
     (media (fst (markMissingFilesDeleted (\<lambda>p. p) SQLITE_MAX_VARIABLE_NUMBER storeTwoRoots
                    [Some ''/r/a.jpg''] ''/r''))) =
     [''active'', ''deleted'', ''active''] \<and>
   snd (markMissingFilesDeleted (\<lambda>p. p) SQLITE_MAX_VARIABLE_NUMBER storeTwoRoots
          [Some ''/r/a.jpg''] ''/r'') = 1 \<and>
   map status_col
     (media (fst (markMissingFilesDeleted (\<lambda>p. p) SQLITE_MAX_VARIABLE_NUMBER storeTwoRoots
                    [] ''/r''))) =
     [''deleted'', ''deleted'', ''active'']"
  by code_simp

lemma manyPaths_facts:
  "length (manyPaths n) = n"
  "Some ''/r/a.jpg'' \<notin> set (manyPaths n)"
  "None \<notin> set (manyPaths n)"
  "distinct (manyPaths n) = distinct (map showNat [0..<n])"
  by (auto simp: manyPaths_def distinct_map inj_on_def)

text \<open>
  C6. The claim: \<^verbatim>\<open>markMissingFilesDeleted(existingPaths, rootDir)\<close> sets
  \<^verbatim>\<open>status='deleted'\<close> on exactly the active rows under the root whose path is not among
  \<^verbatim>\<open>existingPaths\<close>. It does so while the statement can be prepared
  (\<open>markMissingFilesDeleted_within_limit\<close>). The statement binds one parameter per path,
  and the scanner passes every media file of the root. With 32766 files in \<^verbatim>\<open>/r\<close>, none
  of them \<^verbatim>\<open>/r/a.jpg\<close>, and a store whose one row is the active \<^verbatim>\<open>/r/a.jpg\<close>, the
  statement has 32767 parameters, one more than SQLite allows: nothing is marked, the row
  stays active and the result is 0.
\<close>

theorem C6_markMissingFilesDeleted_fails_on_large_roots:
  "length (manyPaths 32766) = 32766 \<and>
   Some ''/r/a.jpg'' \<notin> set (manyPaths 32766) \<and>
   map (\<lambda>row. (file_path row, root_dir row, status_col row)) (media (storeOneTagged False)) =
     [(''/r/a.jpg'', ''/r'', ''active'')] \<and>
   markMissingFilesDeleted (\<lambda>p. p) SQLITE_MAX_VARIABLE_NUMBER (storeOneTagged False)
     (manyPaths 32766) ''/r'' = (storeOneTagged False, 0)"
proof -
  have rows: "map (\<lambda>row. (file_path row, root_dir row, status_col row))
                (media (storeOneTagged False)) = [(''/r/a.jpg'', ''/r'', ''active'')]"
    by code_simp
  have "SQLITE_MAX_VARIABLE_NUMBER \<le> int (length (manyPaths 32766))"
    by (simp add: manyPaths_facts SQLITE_MAX_VARIABLE_NUMBER_def)
  then have "markMissingFilesDeleted (\<lambda>p. p) SQLITE_MAX_VARIABLE_NUMBER (storeOneTagged False)
     (manyPaths 32766) ''/r'' = (storeOneTagged False, 0)"
    by (rule markMissingFilesDeleted_too_many)
  then show ?thesis using rows by (simp add: manyPaths_facts)
qed

section \<open>Tag filters of \<^verbatim>\<open>queryMedia\<close>\<close>



lemma length_insertRowBy: "length (insertRowBy le x ys) = Suc (length ys)"
  by (induction ys) auto

lemma length_orderRows: "length (orderRows le xs) = length xs"
  by (induction xs) (simp_all add: orderRows_def length_insertRowBy)








section \<open>Duplicate tags in a match-all query\<close>

lemma tagIdsNamed_length:
  assumes "distinct (map snd (tags db))"
  shows "length (tagIdsNamed db names) \<le> card (set names)"
proof -
  let ?hit = "filter (\<lambda>t. snd t \<in> set names) (tags db)"
  have d: "distinct (map snd ?hit)" using assms by (simp add: distinct_map_filter)
  have "set (map snd ?hit) \<subseteq> set names" by auto
  then have "card (set (map snd ?hit)) \<le> card (set names)"
    by (intro card_mono) auto
  moreover have "card (set (map snd ?hit)) = length (map snd ?hit)"
    using d by (rule distinct_card)
  ultimately show ?thesis by (simp add: tagIdsNamed_def)
qed

lemma matching_distinct_le:
  "length (remdups (map snd (matchingTagRows db names mediaId))) \<le> length (tagIdsNamed db names)"
proof -
  have "set (map snd (matchingTagRows db names mediaId)) \<subseteq> set (tagIdsNamed db names)"
    by (auto simp: matchingTagRows_def)
  then have "card (set (map snd (matchingTagRows db names mediaId))) \<le> card (set (tagIdsNamed db names))"
    by (intro card_mono) auto
  also have "\<dots> \<le> length (tagIdsNamed db names)" by (rule card_length)
  finally show ?thesis by (simp add: length_remdups_card_conv)
qed

lemma not_distinct_card_less: "\<not> distinct xs \<Longrightarrow> card (set xs) < length xs"
  using card_length[of xs] distinct_card[of xs] card_distinct[of xs] by (metis le_neq_implies_less)

lemma tagClause_duplicates:
  assumes "distinct (map snd (tags db))" and "\<not> distinct names"
  shows "\<not> tagClause db names True row"
proof -
  have "length (remdups (map snd (matchingTagRows db names (m_id row)))) \<le> card (set names)"
    using matching_distinct_le tagIdsNamed_length[OF assms(1)] by (rule order_trans)
  also have "\<dots> < length names" using assms(2) by (rule not_distinct_card_less)
  finally show ?thesis by (simp add: tagClause_def Let_def)
qed

text \<open>
  C10. When two entries of the requested tag list normalise to the same name, a
  match-all \<^verbatim>\<open>queryMedia\<close> returns no record and \<^verbatim>\<open>totalCount\<close> 0 on every store that
  satisfies the schema: the \<^verbatim>\<open>HAVING\<close> count is compared with the length of the list,
  duplicates included, which no row's number of distinct tags reaches.
\<close>

theorem C10_queryMedia_duplicate_tags_match_nothing:
  assumes "schemaOK db"
    and "\<not> distinct (map normalizeTag requiredTags)"
  shows "queryMedia absolutePath db requiredTags searchText lim off orderBy root True =
           \<lparr> records = [], totalCount = 0 \<rparr>"
proof -
  have ne: "requiredTags \<noteq> []" using assms(2) by auto
  have "filter (whereSQL absolutePath db requiredTags searchText root True) (media db) = []"
    using tagClause_duplicates[OF _ assms(2)] assms(1) ne by (auto simp: whereSQL_def filter_empty_conv schemaOK_def)
  then show ?thesis
    by (simp add: queryMedia_def Let_def orderRows_def limitOffset_def)
qed

theorem C10_queryMedia_duplicate_tags_witness:
  "schemaOK storeABC \<and> \<not> distinct (map normalizeTag [''x'', '' X '']) \<and>
   queryMedia (\<lambda>p. p) storeABC [''x'', '' X ''] [] 200 0 defaultOrder [] True =
     \<lparr> records = [], totalCount = 0 \<rparr> \<and>
   map rid (records (queryMedia (\<lambda>p. p) storeABC [''x''] [] 200 0 defaultOrder [] True)) = [2, 1]"
proof -
  have d: "\<not> distinct (map normalizeTag [''x'', '' X ''])" by code_simp
  have one: "map rid (records (queryMedia (\<lambda>p. p) storeABC [''x''] [] 200 0 defaultOrder [] True)) =
      [2, 1]"
    by code_simp
  show ?thesis
    using schemaOK_storeABC d one
      C10_queryMedia_duplicate_tags_match_nothing [OF schemaOK_storeABC d]
    by simp
qed

section \<open>Tag counts\<close>

lemma leftJoin_fst:
  "(\<And>x. x \<in> set xs \<Longrightarrow> length (filter (on x) ys) \<le> 1) \<Longrightarrow>
   map fst (leftJoin xs ys on) = xs"
proof (induction xs)
  case Nil then show ?case by (simp add: leftJoin_def)
next
  case (Cons x xs)
  have "length (filter (on x) ys) \<le> 1" using Cons.prems by simp
  then have one: "map fst (case filter (on x) ys of [] \<Rightarrow> [(x, None)]
                 | y # ys' \<Rightarrow> map (\<lambda>y'. (x, Some y')) (y # ys')) = [x]"
    by (cases "filter (on x) ys") (auto split: list.splits)
  have "map fst (leftJoin xs ys on) = xs" using Cons by simp
  then show ?case using one by (simp add: leftJoin_def)
qed

lemma filter_id_le_one:
  "distinct (map f ys) \<Longrightarrow> length (filter (\<lambda>y. f y = a \<and> P y) ys) \<le> 1"
proof (induction ys)
  case Nil then show ?case by simp
next
  case (Cons y ys)
  show ?case
  proof (cases "f y = a")
    case True
    then have "filter (\<lambda>y. f y = a \<and> P y) ys = []"
      using Cons.prems by (fastforce simp: filter_empty_conv image_iff)
    then show ?thesis by simp
  next
    case False then show ?thesis using Cons by simp
  qed
qed
lemma tagBlock_props:
  "tagBlock db t \<noteq> []"
  "map fst (tagBlock db t) = replicate (length (tagBlock db t)) t"
  "length (filter (\<lambda>x. snd x \<noteq> None) (tagBlock db t)) =
     length (filter (\<lambda>mt. snd mt = fst t) (media_tags db))"
  by (auto simp: tagBlock_def comp_def map_replicate_const split: list.splits)

lemma tagCountsJoin_fst:
  assumes "distinct (map m_id (media db))"
  shows "map fst (tagCountsJoin db) = concat (map (tagBlock db) (tags db))"
proof -
  have "map fst (tagCountsJoin db) =
        leftJoin (tags db) (media_tags db) (\<lambda>t mt. snd mt = fst t)"
    unfolding tagCountsJoin_def
  proof (rule leftJoin_fst)
    fix x :: "tag_row \<times> media_tag_row option"
    show "length (filter (\<lambda>m. case snd x of None \<Rightarrow> False
               | Some mt \<Rightarrow> m_id m = fst mt \<and> status_col m = ''active'') (media db)) \<le> 1"
    proof (cases "snd x")
      case None then show ?thesis by simp
    next
      case (Some mt)
      then show ?thesis using filter_id_le_one[OF assms, of "fst mt" "\<lambda>m. status_col m = ''active''"]
        by simp
    qed
  qed
  then show ?thesis by (simp add: leftJoin_def tagBlock_def[abs_def])
qed

lemma filter_concat_blocks:
  assumes "distinct (map fst ts)" and "t \<in> set ts"
  shows "filter (\<lambda>x. fst (fst x) = fst t) (concat (map (tagBlock db) ts)) = tagBlock db t"
  using assms
proof (induction ts)
  case Nil then show ?case by simp
next
  case (Cons a ts)
  have blk: "filter (\<lambda>x. fst (fst x) = g) (tagBlock db u) = (if fst u = g then tagBlock db u else [])" for g u
    by (auto simp: tagBlock_def filter_empty_conv split: list.splits)
  show ?case
  proof (cases "t = a")
    case True
    have "\<forall>u \<in> set ts. fst u \<noteq> fst a" using Cons.prems(1) by (fastforce simp: image_iff)
    then have "filter (\<lambda>x. fst (fst x) = fst a) (concat (map (tagBlock db) ts)) = []"
      by (induction ts) (auto simp: blk)
    then show ?thesis using True by (simp add: blk)
  next
    case False
    then have "t \<in> set ts" using Cons.prems(2) by simp
    moreover have "fst a \<noteq> fst t" using Cons.prems(1) \<open>t \<in> set ts\<close> by (fastforce simp: image_iff)
    ultimately show ?thesis using Cons by (simp add: blk)
  qed
qed

lemma remdups_replicate_append:
  "0 < n \<Longrightarrow> a \<notin> set rest \<Longrightarrow> remdups (replicate n a @ rest) = a # remdups rest"
  by (induction n) auto

lemma groups_concat_blocks:
  "distinct (map fst ts) \<Longrightarrow>
   remdups (map (\<lambda>x. fst (fst x)) (concat (map (tagBlock db) ts))) = map fst ts"
proof (induction ts)
  case Nil then show ?case by simp
next
  case (Cons a ts)
  have m: "map (\<lambda>x. fst (fst x)) (tagBlock db a) = replicate (length (tagBlock db a)) (fst a)"
    by (auto simp: tagBlock_def comp_def map_replicate_const split: list.splits)
  have rest: "set (map (\<lambda>x. fst (fst x)) (concat (map (tagBlock db) ts))) \<subseteq> fst ` set ts"
    by (auto simp: tagBlock_def split: list.splits)
  have "fst a \<notin> set (map (\<lambda>x. fst (fst x)) (concat (map (tagBlock db) ts)))"
    using rest Cons.prems by auto
  moreover have "0 < length (tagBlock db a)" using tagBlock_props(1)[of db a] by simp
  ultimately have "remdups (replicate (length (tagBlock db a)) (fst a) @
                     map (\<lambda>x. fst (fst x)) (concat (map (tagBlock db) ts))) =
                   fst a # remdups (map (\<lambda>x. fst (fst x)) (concat (map (tagBlock db) ts)))"
    by (rule remdups_replicate_append[rotated])
  then show ?case using Cons m by simp
qed

lemma tagCounts_counts_associations:
  assumes "distinct (map m_id (media db))" and "distinct (map fst (tags db))"
  shows "tagCounts db =
     sort_key fst
       (map (\<lambda>t. (snd t, int (length (filter (\<lambda>mt. snd mt = fst t) (media_tags db)))))
          (tags db))"
proof -
  let ?J = "tagCountsJoin db"
  let ?B = "concat (map (tagBlock db) (tags db))"
  have J: "map fst ?J = ?B" by (rule tagCountsJoin_fst[OF assms(1)])
  have groups: "remdups (map (\<lambda>r. fst (fst (fst r))) ?J) = map fst (tags db)"
  proof -
    have "map (\<lambda>r. fst (fst (fst r))) ?J = map (\<lambda>x. fst (fst x)) (map fst ?J)" by simp
    then show ?thesis using J groups_concat_blocks[OF assms(2), of db] by simp
  qed
  have rows: "map fst (filter (\<lambda>r. fst (fst (fst r)) = fst t) ?J) = tagBlock db t"
    if "t \<in> set (tags db)" for t
  proof -
    have "map fst (filter (\<lambda>r. fst (fst (fst r)) = fst t) ?J) =
          filter (\<lambda>x. fst (fst x) = fst t) (map fst ?J)"
      by (simp add: filter_map comp_def)
    then show ?thesis using J filter_concat_blocks[OF assms(2) that, of db] by simp
  qed
  have entry: "(snd (fst (fst (hd (filter (\<lambda>r. fst (fst (fst r)) = fst t) ?J)))),
               int (length (filter (\<lambda>r. snd (fst r) \<noteq> None)
                              (filter (\<lambda>r. fst (fst (fst r)) = fst t) ?J)))) =
              (snd t, int (length (filter (\<lambda>mt. snd mt = fst t) (media_tags db))))"
    if "t \<in> set (tags db)" for t
  proof -
    let ?R = "filter (\<lambda>r. fst (fst (fst r)) = fst t) ?J"
    have R: "map fst ?R = tagBlock db t" by (rule rows[OF that])
    have ne: "?R \<noteq> []" using R tagBlock_props(1)[of db t] by auto
    have "fst (hd ?R) = hd (map fst ?R)" using ne by (simp add: hd_map)
    also have "\<dots> = hd (tagBlock db t)" using R by simp
    finally have h1: "fst (hd ?R) = hd (tagBlock db t)" .
    have "fst (hd (tagBlock db t)) = t"
      by (auto simp: tagBlock_def split: list.splits)
    then have name: "snd (fst (fst (hd ?R))) = snd t" using h1 by simp
    have "length (filter (\<lambda>r. snd (fst r) \<noteq> None) ?R) =
          length (filter (\<lambda>x. snd x \<noteq> None) (map fst ?R))"
      by (simp add: filter_map comp_def)
    also have "\<dots> = length (filter (\<lambda>mt. snd mt = fst t) (media_tags db))"
      using R tagBlock_props(3)[of db t] by simp
    finally have cnt: "length (filter (\<lambda>r. snd (fst r) \<noteq> None) ?R) =
          length (filter (\<lambda>mt. snd mt = fst t) (media_tags db))" .
    show ?thesis by (simp only: name cnt)
  qed
  have mapeq: "map (\<lambda>g. (snd (fst (fst (hd (filter (\<lambda>r. fst (fst (fst r)) = g) ?J)))),
                    int (length (filter (\<lambda>r. snd (fst r) \<noteq> None)
                              (filter (\<lambda>r. fst (fst (fst r)) = g) ?J)))))
           (map fst (tags db)) =
        map (\<lambda>t. (snd t, int (length (filter (\<lambda>mt. snd mt = fst t) (media_tags db)))))
           (tags db)"
    unfolding map_map by (rule map_cong[OF refl]) (simp only: comp_def entry)
  show ?thesis by (simp only: tagCounts_def Let_def groups mapeq)
qed

lemma tagCounts_markMissing:
  assumes "distinct (map m_id (media db))" and "distinct (map fst (tags db))"
  shows "tagCounts (fst (markMissingFilesDeleted ap mv db paths root)) = tagCounts db"
proof -
  have a: "distinct (map m_id (media (fst (markMissingFilesDeleted ap mv db paths root))))"
    using assms(1) by (simp add: markMissingFilesDeleted_def Let_def m_id_comp_if)
  have b: "tags (fst (markMissingFilesDeleted ap mv db paths root)) = tags db"
          "media_tags (fst (markMissingFilesDeleted ap mv db paths root)) = media_tags db"
    by (simp_all add: markMissingFilesDeleted_def Let_def)
  show ?thesis using tagCounts_counts_associations[OF a] tagCounts_counts_associations[OF assms] assms(2) by (simp add: b)
qed

text \<open>
  C9. On a store that satisfies the schema, \<^verbatim>\<open>tagCounts\<close> reports for each tag the
  number of its \<^verbatim>\<open>media_tags\<close> rows, whatever the status of the media rows they point
  to (the join condition on \<^verbatim>\<open>m.status\<close> sits on a \<^verbatim>\<open>LEFT JOIN\<close> and the count is of
  \<^verbatim>\<open>mt.media_id\<close>); so soft-deleting files leaves every count as it was.
\<close>

theorem C9_tagCounts_ignore_status:
  assumes "schemaOK db"
  shows "tagCounts db =
           sort_key fst
             (map (\<lambda>t. (snd t, int (length (filter (\<lambda>mt. snd mt = fst t) (media_tags db)))))
                (tags db)) \<and>
         tagCounts (fst (markMissingFilesDeleted absolutePath maxVariables db existingPaths root)) =
           tagCounts db"
  using assms tagCounts_counts_associations [of db] tagCounts_markMissing [of db]
  by (simp add: schemaOK_def)

theorem C9_tagCounts_ignore_status_witness:
  "schemaOK storeABC \<and>
   map status_col
     (media (fst (markMissingFilesDeleted (\<lambda>p. p) SQLITE_MAX_VARIABLE_NUMBER storeABC
                    [] ''/r''))) =
     [''deleted'', ''deleted'', ''deleted''] \<and>
   tagCounts (fst (markMissingFilesDeleted (\<lambda>p. p) SQLITE_MAX_VARIABLE_NUMBER storeABC
                     [] ''/r'')) =
     [(''x'', 2), (''y'', 2)]"
proof -
  have st: "map status_col
              (media (fst (markMissingFilesDeleted (\<lambda>p. p) SQLITE_MAX_VARIABLE_NUMBER storeABC
                             [] ''/r''))) =
            [''deleted'', ''deleted'', ''deleted'']"
    by code_simp
  have tc: "tagCounts storeABC = [(''x'', 2), (''y'', 2)]" by code_simp
  show ?thesis
    using schemaOK_storeABC st tc
      C9_tagCounts_ignore_status [OF schemaOK_storeABC,
        of "\<lambda>p. p" SQLITE_MAX_VARIABLE_NUMBER "[]" "''/r''"]
    by simp
qed

section \<open>Thumbnail requests: coalescing and cancellation\<close>

lemma pending_cacheObject [simp]: "m_pendingRequests (fst (cacheObject s key)) = m_pendingRequests s"
  by (simp add: cacheObject_def split: option.splits)

lemma pending_requestThumbnail:
  "mediaId \<noteq> m \<Longrightarrow> m \<notin> m_pendingRequests s \<Longrightarrow>
   m \<notin> m_pendingRequests (requestThumbnail fileExists s mediaId path targetSize)"
  by (auto simp: requestThumbnail_def Let_def poolStart_def cacheObject_def split: option.splits prod.splits)

lemma pending_onThumbnailLoaded:
  "m \<notin> m_pendingRequests s \<Longrightarrow> m \<notin> m_pendingRequests (onThumbnailLoaded s mediaId targetSize pixmap)"
  by (auto simp: onThumbnailLoaded_def Let_def cacheInsert_def split: option.splits)

lemma pending_handleEvent:
  "m \<notin> m_pendingRequests s \<Longrightarrow> m \<notin> m_pendingRequests (handleEvent s readBack)"
  by (auto simp: handleEvent_def Let_def pending_onThumbnailLoaded
      split: list.splits event.splits option.splits)

lemma pending_cacheStep:
  "\<not> isRequestFor m op \<Longrightarrow> m \<notin> m_pendingRequests s \<Longrightarrow>
   m \<notin> m_pendingRequests (cacheStep fileExists s op)"
  by (cases op)
     (auto simp: pending_requestThumbnail pending_handleEvent cancelPendingRequests_def
        cancelRequest_def clearCache_def getThumbnail_def cacheObject_def startNext_def
        finishTask_def Let_def split: option.splits list.splits prod.splits)

lemma pending_cacheRun:
  "\<forall>op \<in> set ops. \<not> isRequestFor m op \<Longrightarrow> m \<notin> m_pendingRequests s \<Longrightarrow>
   m \<notin> m_pendingRequests (cacheRun fileExists s ops)"
  by (induction ops arbitrary: s) (auto simp: cacheRun_def pending_cacheStep)

lemma onThumbnailLoaded_not_pending:
  "m \<notin> m_pendingRequests s \<Longrightarrow> onThumbnailLoaded s m targetSize pixmap = s"
  by (simp add: onThumbnailLoaded_def)

lemma requestThumbnail_pending_no_task:
  "mediaId \<in> m_pendingRequests s \<Longrightarrow>
   poolQueued (requestThumbnail fileExists s mediaId path targetSize) = poolQueued s \<and>
   poolRunning (requestThumbnail fileExists s mediaId path targetSize) = poolRunning s \<and>
   m_pendingRequests (requestThumbnail fileExists s mediaId path targetSize) = m_pendingRequests s"
  by (auto simp: requestThumbnail_def Let_def cacheObject_def split: option.splits prod.splits)

text \<open>
  C8. A \<^verbatim>\<open>requestThumbnail\<close> for an id that is neither cached at that size nor pending,
  with an existing thumbnail file, marks the id pending and hands exactly one task to the
  pool (started at once or queued); a second call for the same id and size, whatever the
  path and the file system then, changes nothing: no second task.
\<close>

theorem C8_requestThumbnail_coalesces:
  assumes "cacheKey mediaId targetSize \<notin> set (map fst (m_cache s))"
    and "mediaId \<notin> m_pendingRequests s"
    and "path \<noteq> []" and "fileExists path"
  shows "m_pendingRequests (requestThumbnail fileExists s mediaId path targetSize) =
           insert mediaId (m_pendingRequests s) \<and>
         poolRunning (requestThumbnail fileExists s mediaId path targetSize) =
           (if length (poolRunning s) < maxThreadCount s
            then poolRunning s @ [\<lparr> t_mediaId = mediaId, t_path = path, t_targetSize = targetSize \<rparr>]
            else poolRunning s) \<and>
         poolQueued (requestThumbnail fileExists s mediaId path targetSize) =
           (if length (poolRunning s) < maxThreadCount s
            then poolQueued s
            else poolQueued s @ [\<lparr> t_mediaId = mediaId, t_path = path, t_targetSize = targetSize \<rparr>]) \<and>
         requestThumbnail fileExists' (requestThumbnail fileExists s mediaId path targetSize)
           mediaId path' targetSize =
         requestThumbnail fileExists s mediaId path targetSize"
  using assms by (auto simp: requestThumbnail_def Let_def poolStart_def)

theorem C8_requestThumbnail_coalesces_witness:
  "cacheKey 7 256 \<notin> set (map fst (m_cache (newThumbnailCache 500 2 :: nat thumbnailCache))) \<and>
   7 \<notin> m_pendingRequests (newThumbnailCache 500 2 :: nat thumbnailCache) \<and>
   ''/t/7.jpg'' \<noteq> [] \<and>
   poolRunning (cacheRun (\<lambda>p. True) (newThumbnailCache 500 2 :: nat thumbnailCache)
       [Request 7 ''/t/7.jpg'' 256, Request 7 ''/t/7.jpg'' 256]) =
     [\<lparr> t_mediaId = 7, t_path = ''/t/7.jpg'', t_targetSize = 256 \<rparr>] \<and>
   poolQueued (cacheRun (\<lambda>p. True) (newThumbnailCache 500 2 :: nat thumbnailCache)
       [Request 7 ''/t/7.jpg'' 256, Request 7 ''/t/7.jpg'' 256]) = []"
proof -
  have h1: "cacheKey 7 256 \<notin> set (map fst (m_cache (newThumbnailCache 500 2 :: nat thumbnailCache)))"
    by (simp add: newThumbnailCache_def)
  have h2: "7 \<notin> m_pendingRequests (newThumbnailCache 500 2 :: nat thumbnailCache)"
    by (simp add: newThumbnailCache_def)
  have h3: "''/t/7.jpg'' \<noteq> []" by simp
  have h4: "(\<lambda>p :: string. True) ''/t/7.jpg''" by simp
  note c = C8_requestThumbnail_coalesces [OF h1 h2 h3 h4, of "\<lambda>p. True" "''/t/7.jpg''"]
  show ?thesis
    using h1 h2 c by (simp add: cacheRun_def newThumbnailCache_def)
qed

text \<open>
  While an id is not pending and is not requested again, whatever else happens to the
  cache, \<^verbatim>\<open>onThumbnailLoaded\<close> for that id changes nothing.
\<close>

lemma onThumbnailLoaded_dropped_after_cancel:
  assumes "\<forall>op \<in> set ops. \<not> isRequestFor m op"
  shows "onThumbnailLoaded (cacheRun fileExists (cancelRequest s m) ops) m targetSize pixmap =
           cacheRun fileExists (cancelRequest s m) ops \<and>
         onThumbnailLoaded (cacheRun fileExists (cancelPendingRequests s) ops) m targetSize pixmap =
           cacheRun fileExists (cancelPendingRequests s) ops"
proof -
  have a: "m \<notin> m_pendingRequests (cancelRequest s m)" by (simp add: cancelRequest_def)
  have b: "m \<notin> m_pendingRequests (cancelPendingRequests s)" by (simp add: cancelPendingRequests_def)
  show ?thesis
    using pending_cacheRun[OF assms a] pending_cacheRun[OF assms b]
    by (simp add: onThumbnailLoaded_not_pending)
qed

text \<open>
  C7. The claim: once a pending request for \<open>m\<close> is cancelled, no notification is ever
  delivered for \<open>m\<close> from that request and its result is not cached, even if the worker
  finishes later. \<^verbatim>\<open>onThumbnailLoaded\<close> checks only that the id it is given is pending
  (\<^verbatim>\<open>Check if request was cancelled\<close>), and the id is read back from the finished task
  when the call is delivered.

  First history: media 7 is requested at size 100 (the task starts), cancelled, and
  requested again at size 200 while the first task still runs. The first task finishes
  and its call is delivered, reading its own members: 7 is pending again, so the result
  of the cancelled request is cached under the key of size 100 and \<^verbatim>\<open>thumbnailLoaded\<close>
  is emitted. When the second task finishes, 7 is no longer pending and the result of the
  request that was not cancelled is dropped.

  Second history: 7 is requested and cancelled, its task finishes and is deleted, and 8
  is requested before the call the task posted is delivered. The call reads the freed
  task's members as those of the task of 8, which was allocated in between: the pixmap
  decoded for 7 is emitted as the thumbnail of 8 and cached under the key of 8.
\<close>

theorem C7_cancelled_result_delivered:
  "poolRunning (cacheRun (\<lambda>p. True) (newThumbnailCache 500 2 :: nat thumbnailCache)
       [Request 7 ''/t/a.jpg'' 100]) =
     [\<lparr> t_mediaId = 7, t_path = ''/t/a.jpg'', t_targetSize = 100 \<rparr>] \<and>
   m_pendingRequests (cacheRun (\<lambda>p. True) (newThumbnailCache 500 2 :: nat thumbnailCache)
       [Request 7 ''/t/a.jpg'' 100, CancelOne 7]) = {} \<and>
   emitted (cacheRun (\<lambda>p. True) (newThumbnailCache 500 2 :: nat thumbnailCache)
       [Request 7 ''/t/a.jpg'' 100, CancelOne 7, Request 7 ''/t/a.jpg'' 200,
        Finish 0 (Some 1), HandleEvent None]) = [thumbnailLoaded 7 1] \<and>
   m_cache (cacheRun (\<lambda>p. True) (newThumbnailCache 500 2 :: nat thumbnailCache)
       [Request 7 ''/t/a.jpg'' 100, CancelOne 7, Request 7 ''/t/a.jpg'' 200,
        Finish 0 (Some 1), HandleEvent None]) = [(''7_100'', 1)] \<and>
   emitted (cacheRun (\<lambda>p. True) (newThumbnailCache 500 2 :: nat thumbnailCache)
       [Request 7 ''/t/a.jpg'' 100, CancelOne 7, Request 7 ''/t/a.jpg'' 200,
        Finish 0 (Some 1), HandleEvent None, Finish 0 (Some 2), HandleEvent None]) =
     [thumbnailLoaded 7 1] \<and>
   emitted (cacheRun (\<lambda>p. True) (newThumbnailCache 500 2 :: nat thumbnailCache)
       [Request 7 ''/t/a.jpg'' 100, CancelOne 7, Finish 0 (Some 1),
        Request 8 ''/t/b.jpg'' 100, HandleEvent (Some (8, 100))]) = [thumbnailLoaded 8 1] \<and>
   m_cache (cacheRun (\<lambda>p. True) (newThumbnailCache 500 2 :: nat thumbnailCache)
       [Request 7 ''/t/a.jpg'' 100, CancelOne 7, Finish 0 (Some 1),
        Request 8 ''/t/b.jpg'' 100, HandleEvent (Some (8, 100))]) = [(''8_100'', 1)]"
  by code_simp

section \<open>Scanning\<close>

lemma processFile_fastSkip:
  "fastSkip existingMap (s_fs st) path \<Longrightarrow>
   processFile thumbnailOf m_rootDir m_thumbnailsDir existingMap st path =
     st\<lparr> s_result := (s_result st)\<lparr> scanned := scanned (s_result st) + 1 \<rparr> \<rparr>"
  by (auto simp: fastSkip_def processFile_def Let_def split: option.splits)

lemma fold_processFile_fastSkip:
  "\<forall>path \<in> set paths. fastSkip existingMap fs path \<Longrightarrow>
   fold (\<lambda>path st. processFile thumbnailOf m_rootDir m_thumbnailsDir existingMap st path) paths
     \<lparr> s_fs = fs, s_db = db, s_result = r \<rparr> =
   \<lparr> s_fs = fs, s_db = db,
     s_result = r\<lparr> scanned := scanned r + int (length paths) \<rparr> \<rparr>"
proof (induction paths arbitrary: r)
  case Nil
  then show ?case by simp
next
  case (Cons p ps)
  have "processFile thumbnailOf m_rootDir m_thumbnailsDir existingMap
          \<lparr> s_fs = fs, s_db = db, s_result = r \<rparr> p =
        \<lparr> s_fs = fs, s_db = db, s_result = r\<lparr> scanned := scanned r + 1 \<rparr> \<rparr>"
    using Cons.prems by (simp add: processFile_fastSkip)
  then show ?case using Cons by (simp add: algebra_simps)
qed

lemma markMissingFilesDeleted_none_missing:
  assumes "\<forall>row \<in> set (media db).
             root_dir row = absolutePath root \<and> status_col row = ''active'' \<longrightarrow>
             file_path row \<in> set paths"
    and "paths \<noteq> []"
  shows "fst (markMissingFilesDeleted absolutePath maxVariables db (map Some paths) root) = db"
proof -
  have "map (\<lambda>row. if root_dir row = absolutePath root \<and> status_col row = ''active'' \<and>
                      Some (file_path row) \<notin> set (map Some paths) \<and>
                      None \<notin> set (map Some paths)
                   then row\<lparr> status_col := ''deleted'' \<rparr> else row) (media db) = media db"
    using assms(1) by (intro map_idI) auto
  then show ?thesis using assms(2) by (simp add: markMissingFilesDeleted_def Let_def)
qed

lemma process_all_skipped:
  assumes "files = listMediaFiles absolutePath fs (absolutePath root)"
    and "files \<noteq> []"
    and "\<forall>row \<in> set (media db).
           root_dir row = absolutePath (absolutePath root) \<and> status_col row = ''active'' \<longrightarrow>
           file_path row \<in> set files"
    and "\<forall>path \<in> set files.
           fastSkip (existingMediaMapForRoot absolutePath db (absolutePath root)) fs path"
  shows "process absolutePath maxVariables thumbnailOf None (fs, db) root thumbnailsDir =
           \<lparr> s_fs = fs, s_db = db,
             s_result = \<lparr> scanned = int (length files), addedOrUpdated = 0, errors = 0 \<rparr> \<rparr>"
proof -
  have m: "fst (markMissingFilesDeleted absolutePath maxVariables db (map Some files)
                  (absolutePath root)) = db"
    using assms(3,2) by (rule markMissingFilesDeleted_none_missing)
  show ?thesis
    unfolding process_def Let_def fst_conv snd_conv assms(1)[symmetric] m option.case
    using fold_processFile_fastSkip[OF assms(4)] by simp
qed

lemma processFile_exception:
  assumes "existingMap path = None" and "throwing (entryAt (s_fs st) path) = Some what"
  shows "processFile thumbnailOf m_rootDir m_thumbnailsDir existingMap st path =
           \<lparr> s_fs = s_fs st,
             s_db = fst (upsertMedia (s_db st)
                      (newMediaRecord
                         \<lparr> filePath := path, rootDir := m_rootDir, fileName := fileNameOf path,
                           mediaType := typeFromExtension (''.'' @ toLower (suffixOf path)),
                           error := what \<rparr>)),
             s_result = (s_result st)
               \<lparr> scanned := scanned (s_result st) + 1, errors := errors (s_result st) + 1 \<rparr> \<rparr>"
  using assms by (simp add: processFile_def recordError_def Let_def)

text \<open>
  C5. The claim: a file that cannot be opened, or whose processing fails, is recorded
  with its media kind and a non-empty error message, and the run's error count is
  incremented. The \<^verbatim>\<open>catch\<close> block does this for a file whose processing throws
  (\<open>processFile_exception\<close>; second half below). A file that cannot be opened throws
  nothing: \<^verbatim>\<open>computeSha256\<close> returns the empty string, and the loop goes on to store an
  ordinary record. Scanning \<^verbatim>\<open>/r\<close> with the one unreadable file \<^verbatim>\<open>/r/a.jpg\<close> stores a
  row of kind \<^verbatim>\<open>image\<close> with no hash, no error message and the thumbnail path
  \<^verbatim>\<open>/r/thumbnails/.jpg\<close>, and reports one file added and no error.
\<close>

theorem C5_unreadable_file_recorded_without_error:
  "s_result (process (\<lambda>p. p) SQLITE_MAX_VARIABLE_NUMBER jpegOf None
       ([(''/r/a.jpg'', unreadableFile)], initializeSchema False) ''/r'' []) =
     \<lparr> scanned = 1, addedOrUpdated = 1, errors = 0 \<rparr> \<and>
   map (\<lambda>row. (file_path row, media_type row, sha256_col row, thumbnail_path row, error_col row))
     (media (s_db (process (\<lambda>p. p) SQLITE_MAX_VARIABLE_NUMBER jpegOf None
        ([(''/r/a.jpg'', unreadableFile)], initializeSchema False) ''/r'' []))) =
     [(''/r/a.jpg'', ''image'', None, Some ''/r/thumbnails/.jpg'', None)] \<and>
   s_result (process (\<lambda>p. p) SQLITE_MAX_VARIABLE_NUMBER jpegOf None
       ([(''/r/a.jpg'', goodImage\<lparr> throwing := Some ''bad alloc'' \<rparr>)], initializeSchema False)
       ''/r'' []) =
     \<lparr> scanned = 1, addedOrUpdated = 0, errors = 1 \<rparr> \<and>
   map (\<lambda>row. (file_path row, media_type row, error_col row))
     (media (s_db (process (\<lambda>p. p) SQLITE_MAX_VARIABLE_NUMBER jpegOf None
        ([(''/r/a.jpg'', goodImage\<lparr> throwing := Some ''bad alloc'' \<rparr>)], initializeSchema False)
        ''/r'' []))) =
     [(''/r/a.jpg'', ''image'', Some ''bad alloc'')]"
  by code_simp

text \<open>
  C2. The claim: a second \<^verbatim>\<open>scan(root)\<close> with no change of the file system in between
  leaves the store as it was and reports \<^verbatim>\<open>addedOrUpdated == 0\<close>. A run in which every
  listed file takes the fast skip does write nothing (\<open>process_all_skipped\<close>). But the
  thumbnails directory is \<^verbatim>\<open>root/thumbnails\<close> (the worker's default, and what the
  main window passes), and \<^verbatim>\<open>listMediaFiles\<close> walks every sub-directory of the root:
  the first scan of \<^verbatim>\<open>/r\<close> with the one image \<^verbatim>\<open>/r/a.jpg\<close> writes
  \<^verbatim>\<open>/r/thumbnails/aa.jpg\<close>, and the second scan lists that thumbnail as a new media
  file, stores a row for it and reports one file added. With the thumbnails kept outside
  the root (\<^verbatim>\<open>/t\<close>) the second scan changes nothing.
\<close>

theorem C2_second_scan_indexes_thumbnails:
  "map fst (s_fs (fst (scanTwice [(''/r/a.jpg'', goodImage)] ''/r'' []))) =
     [''/r/a.jpg'', ''/r/thumbnails/aa.jpg''] \<and>
   s_result (fst (scanTwice [(''/r/a.jpg'', goodImage)] ''/r'' [])) =
     \<lparr> scanned = 1, addedOrUpdated = 1, errors = 0 \<rparr> \<and>
   map file_path (media (s_db (fst (scanTwice [(''/r/a.jpg'', goodImage)] ''/r'' [])))) =
     [''/r/a.jpg''] \<and>
   s_result (snd (scanTwice [(''/r/a.jpg'', goodImage)] ''/r'' [])) =
     \<lparr> scanned = 2, addedOrUpdated = 1, errors = 0 \<rparr> \<and>
   map file_path (media (s_db (snd (scanTwice [(''/r/a.jpg'', goodImage)] ''/r'' [])))) =
     [''/r/a.jpg'', ''/r/thumbnails/aa.jpg''] \<and>
   s_result (snd (scanTwice [(''/r/a.jpg'', goodImage)] ''/r'' ''/t'')) =
     \<lparr> scanned = 1, addedOrUpdated = 0, errors = 0 \<rparr> \<and>
   s_db (snd (scanTwice [(''/r/a.jpg'', goodImage)] ''/r'' ''/t'')) =
     s_db (fst (scanTwice [(''/r/a.jpg'', goodImage)] ''/r'' ''/t''))"
  by code_simp

end
